theory Spec2Isabelle
  imports Main "HOL-Library.Word"
begin

unbundle bit_operations_syntax

section \<open>Scope of the model\<close>

text \<open>
  A shallow embedding of the SPF evaluator of \<^verbatim>\<open>github.com/wttw/spf\<close>:
  the DNS gateway, the macro engine, the mechanism parser and serialiser, the eight
  mechanism evaluators and \<^verbatim>\<open>checkHost\<close>.

  Conventions.
  \<^item> A Go \<^verbatim>\<open>string\<close> is a byte string, here \<^typ>\<open>string\<close>. The functions of
    the Go standard library that the code calls on strings are modelled on their ASCII
    behaviour (\<^verbatim>\<open>strings.ToLower\<close>, \<^verbatim>\<open>strings.Fields\<close>, the
    case-insensitive regular expressions).
  \<^item> Go's \<^verbatim>\<open>int\<close> is modelled by \<^typ>\<open>int\<close>: the two counters start at
    zero and grow by one per query, so the 64-bit bound is out of reach.
  \<^item> A Go \<^verbatim>\<open>error\<close> is a \<^typ>\<open>string option\<close>; \<^term>\<open>None\<close> is \<^verbatim>\<open>nil\<close>.
  \<^item> The \<^verbatim>\<open>*Result\<close> that the Go code mutates is passed in and returned.
  \<^item> The \<^verbatim>\<open>Hook\<close> of a Checker is \<^verbatim>\<open>nil\<close>: hooks only observe.
  \<^item> Functions of \<^verbatim>\<open>github.com/miekg/dns\<close> and of package \<^verbatim>\<open>net\<close>
    whose code is not part of the repository are fields of the record \<open>Lib\<close>, a
    parameter of every function that calls them.
  \<^item> A run-time panic of the Go code is the outcome \<open>Panic\<close>.
\<close>

section \<open>Package strings and strconv\<close>

fun Index :: "string \<Rightarrow> char \<Rightarrow> nat option" where
  "Index [] c = None"
| "Index (x # xs) c = (if x = c then Some 0 else map_option Suc (Index xs c))"

fun IndexAny :: "string \<Rightarrow> string \<Rightarrow> nat option" where
  "IndexAny [] chars = None"
| "IndexAny (x # xs) chars =
     (if x \<in> set chars then Some 0 else map_option Suc (IndexAny xs chars))"

definition LastIndex :: "string \<Rightarrow> char \<Rightarrow> nat option" where
  "LastIndex s c = map_option (\<lambda>i. length s - 1 - i) (Index (rev s) c)"

definition Contains :: "string \<Rightarrow> char \<Rightarrow> bool" where
  "Contains s c = (Index s c \<noteq> None)"

definition HasPrefix :: "string \<Rightarrow> string \<Rightarrow> bool" where
  "HasPrefix s p = (take (length p) s = p)"

definition HasSuffix :: "string \<Rightarrow> string \<Rightarrow> bool" where
  "HasSuffix s p = (length p \<le> length s \<and> drop (length s - length p) s = p)"

definition TrimSuffix :: "string \<Rightarrow> string \<Rightarrow> string" where
  "TrimSuffix s p = (if HasSuffix s p then take (length s - length p) s else s)"

definition isUpper :: "char \<Rightarrow> bool" where
  "isUpper c = (c \<in> set ''ABCDEFGHIJKLMNOPQRSTUVWXYZ'')"

definition isLower :: "char \<Rightarrow> bool" where
  "isLower c = (c \<in> set ''abcdefghijklmnopqrstuvwxyz'')"

definition isDigit :: "char \<Rightarrow> bool" where
  "isDigit c = (c \<in> set ''0123456789'')"

definition lowerChar :: "char \<Rightarrow> char" where
  "lowerChar c = (if isUpper c then char_of (of_char c + (32 :: nat)) else c)"

definition ToLower :: "string \<Rightarrow> string" where
  "ToLower s = map lowerChar s"

text \<open>The white space of \<^verbatim>\<open>strings.Fields\<close>: tab, line feed, vertical tab, form
  feed, carriage return and space.\<close>

definition isSpace :: "char \<Rightarrow> bool" where
  "isSpace c = (c \<in> set [CHR 0x09, CHR 0x0A, CHR 0x0B, CHR 0x0C, CHR 0x0D, CHR '' ''])"

fun Fields_from :: "string \<Rightarrow> string \<Rightarrow> string list" where
  "Fields_from cur [] = (if cur = [] then [] else [cur])"
| "Fields_from cur (c # s) =
     (if isSpace c then (if cur = [] then Fields_from [] s else cur # Fields_from [] s)
      else Fields_from (cur @ [c]) s)"

definition Fields :: "string \<Rightarrow> string list" where
  "Fields s = Fields_from [] s"

fun Split_from :: "string \<Rightarrow> string \<Rightarrow> char \<Rightarrow> string list" where
  "Split_from cur [] sep = [cur]"
| "Split_from cur (c # s) sep =
     (if c = sep then cur # Split_from [] s sep else Split_from (cur @ [c]) s sep)"

definition Split :: "string \<Rightarrow> char \<Rightarrow> string list" where
  "Split s sep = Split_from [] s sep"

fun Join :: "string list \<Rightarrow> string \<Rightarrow> string" where
  "Join [] sep = []"
| "Join [x] sep = x"
| "Join (x # y # ys) sep = x @ sep @ Join (y # ys) sep"

definition digitChar :: "nat \<Rightarrow> char" where
  "digitChar d = ''0123456789'' ! d"

fun Itoa_nat :: "nat \<Rightarrow> string" where
  "Itoa_nat n = (if n < 10 then [digitChar n] else Itoa_nat (n div 10) @ [digitChar (n mod 10)])"

declare Itoa_nat.simps [simp del]

definition Itoa :: "int \<Rightarrow> string" where
  "Itoa i = (if i < 0 then CHR ''-'' # Itoa_nat (nat (- i)) else Itoa_nat (nat i))"

definition digitVal :: "char \<Rightarrow> nat" where
  "digitVal c = of_char c - 48"

fun digitsVal :: "nat \<Rightarrow> string \<Rightarrow> nat" where
  "digitsVal acc [] = acc"
| "digitsVal acc (c # s) = digitsVal (10 * acc + digitVal c) s"

text \<open>\<^verbatim>\<open>strconv.Atoi\<close>: an optional sign, then one or more decimal digits, and a
  value that fits 64 bits; anything else is an error.\<close>

definition Atoi :: "string \<Rightarrow> int option" where
  "Atoi s =
     (let neg = (s \<noteq> [] \<and> hd s = CHR ''-'');
          ds = (if s \<noteq> [] \<and> (hd s = CHR ''-'' \<or> hd s = CHR ''+'') then tl s else s)
      in if ds = [] \<or> \<not> list_all isDigit ds then None
         else let v = int (digitsVal 0 ds) in
           if neg then (if v \<le> 2 ^ 63 then Some (- v) else None)
           else (if v < 2 ^ 63 then Some v else None))"

section \<open>Result codes and evaluation state\<close>

datatype ResultType = NoneR | Neutral | Pass | Fail | Softfail | Temperror | Permerror

type_synonym error = "string option"

type_synonym IP = "8 word list"

text \<open>A \<^verbatim>\<open>net.IPMask\<close> is built by \<^verbatim>\<open>net.CIDRMask(ones, bits)\<close> or is the empty
  literal \<^verbatim>\<open>net.IPMask{}\<close>; \<^verbatim>\<open>Size()\<close> gives back \<open>(ones, bits)\<close>, and
  \<open>(0, 0)\<close> for the empty mask.\<close>

datatype IPMask = Mask int int | NoMask

definition CIDRMask :: "int \<Rightarrow> int \<Rightarrow> IPMask" where
  "CIDRMask ones bits =
     (if (bits = 32 \<or> bits = 128) \<and> 0 \<le> ones \<and> ones \<le> bits then Mask ones bits else NoMask)"

fun Size :: "IPMask \<Rightarrow> int \<times> int" where
  "Size (Mask ones bits) = (ones, bits)"
| "Size NoMask = (0, 0)"

record IPNet =
  net_IP :: IP
  net_Mask :: IPMask

datatype RRType = TypeA | TypeAAAA | TypeMX | TypePTR | TypeTXT | TypeOther nat

datatype RR = RR_A IP | RR_AAAA IP | RR_MX string | RR_PTR string | RR_TXT "string list"
  | RR_Other nat

fun Rrtype :: "RR \<Rightarrow> RRType" where
  "Rrtype (RR_A a) = TypeA"
| "Rrtype (RR_AAAA a) = TypeAAAA"
| "Rrtype (RR_MX h) = TypeMX"
| "Rrtype (RR_PTR h) = TypePTR"
| "Rrtype (RR_TXT t) = TypeTXT"
| "Rrtype (RR_Other n) = TypeOther n"

record Msg =
  Rcode :: int
  Answer :: "RR list"

definition RcodeSuccess :: int where "RcodeSuccess = 0"
definition RcodeServerFailure :: int where "RcodeServerFailure = 2"
definition RcodeNameError :: int where "RcodeNameError = 3"

record Checker =
  Resolver :: "string \<Rightarrow> RRType \<Rightarrow> string + Msg"
  DNSLimit :: int
  MXAddressLimit :: int
  VoidQueryLimit :: int
  PtrAddressLimit :: int
  Hostname :: string

record Result =
  Type :: ResultType
  Error :: error
  DNSQueries :: int
  VoidLookups :: int
  Explanation :: string
  UsedHelo :: bool
  ip :: IP
  sender :: string
  helo :: string

record Lib =
  IsDomainName :: "string \<Rightarrow> int \<times> bool"
  IsFqdn :: "string \<Rightarrow> bool"
  Fqdn :: "string \<Rightarrow> string"
  IsSubDomain :: "string \<Rightarrow> string \<Rightarrow> bool"
  ReverseAddr :: "string \<Rightarrow> string + string"
  IPString :: "IP \<Rightarrow> string"
  ParseCIDR :: "string \<Rightarrow> string + IP \<times> IPNet"
  IPNetString :: "IPNet \<Rightarrow> string"
  IPNetContains :: "IPNet \<Rightarrow> IP \<Rightarrow> bool"
  Now :: int

section \<open>DNS gateway\<close>

definition resolve :: "Checker \<Rightarrow> string \<Rightarrow> RRType \<Rightarrow> string + Msg" where
  "resolve c name qtype = Resolver c name qtype"

definition lookupDNS ::
  "Lib \<Rightarrow> Checker \<Rightarrow> string \<Rightarrow> RRType \<Rightarrow> Result \<Rightarrow> (RR list \<times> ResultType \<times> error) \<times> Result"
where
  "lookupDNS lib c hostname qtype result =
     (case resolve c (Fqdn lib hostname) qtype of
        Inl err \<Rightarrow> (([], Temperror, Some err), result)
      | Inr m \<Rightarrow>
          if Rcode m = RcodeNameError \<or> (Rcode m = RcodeSuccess \<and> length (Answer m) = 0) then
            (let result' = result\<lparr>VoidLookups := VoidLookups result + 1\<rparr> in
             if VoidLookups result' > VoidQueryLimit c
             then (([], Permerror,
                    Some (''void queries exceeded limit of '' @ Itoa (VoidQueryLimit c))), result')
             else (([], NoneR, None), result'))
          else if Rcode m \<noteq> RcodeSuccess then (([], Temperror, None), result)
          else ((filter (\<lambda>rr. Rrtype rr = qtype) (Answer m), NoneR, None), result))"

fun addressesOf :: "RR list \<Rightarrow> IP list" where
  "addressesOf [] = []"
| "addressesOf (RR_A a # rrs) = a # addressesOf rrs"
| "addressesOf (RR_AAAA a # rrs) = a # addressesOf rrs"
| "addressesOf (_ # rrs) = addressesOf rrs"

definition lookupAddresses ::
  "Lib \<Rightarrow> Checker \<Rightarrow> string \<Rightarrow> RRType \<Rightarrow> Result \<Rightarrow> (IP list \<times> ResultType \<times> error) \<times> Result"
where
  "lookupAddresses lib c target qtype result =
     (case lookupDNS lib c target qtype result of
        ((rrs, resultType, err), result') \<Rightarrow>
          if resultType \<noteq> NoneR then (([], resultType, err), result')
          else ((addressesOf rrs, NoneR, None), result'))"

text \<open>\<^verbatim>\<open>spfPrefixRe = (?i)^v=spf1(?: |$)\<close>\<close>

definition spfPrefixRe :: "string \<Rightarrow> bool" where
  "spfPrefixRe s =
     (ToLower (take 6 s) = ''v=spf1'' \<and>
      (case drop 6 s of [] \<Rightarrow> True | x # _ \<Rightarrow> x = CHR '' ''))"

fun selectSPF :: "RR list \<Rightarrow> string list" where
  "selectSPF [] = []"
| "selectSPF (RR_TXT txt # rrs) =
     (let record = concat txt in
      if spfPrefixRe record then record # selectSPF rrs else selectSPF rrs)"
| "selectSPF (_ # rrs) = selectSPF rrs"

definition getSPFRecord :: "Lib \<Rightarrow> Checker \<Rightarrow> string \<Rightarrow> string \<times> ResultType \<times> error" where
  "getSPFRecord lib c domain =
     (case resolve c (Fqdn lib domain) TypeTXT of
        Inl err \<Rightarrow> ('''', Temperror, Some err)
      | Inr m \<Rightarrow>
          if Rcode m \<noteq> RcodeSuccess \<and> Rcode m \<noteq> RcodeNameError then ('''', Temperror, None)
          else (case selectSPF (Answer m) of
                  [] \<Rightarrow> ('''', NoneR, None)
                | [r] \<Rightarrow> (r, NoneR, None)
                | _ \<Rightarrow> ('''', Permerror, None)))"

section \<open>Outcomes\<close>

text \<open>A call of the Go code returns, panics, or (in the model of the recursive
  evaluator, which counts its nested calls) runs out of fuel.\<close>

datatype panic = SenderSlice | PtrLimitSlice | TypeAssertion

datatype 'a outcome = Returns 'a | Panic panic | OutOfFuel

section \<open>Package net: IP addresses\<close>

definition v4InV6Prefix :: IP where
  "v4InV6Prefix = [0, 0, 0, 0, 0, 0, 0, 0, 0, 0, 0xff, 0xff]"

text \<open>\<^verbatim>\<open>IP.To4\<close>, \<^verbatim>\<open>IP.To16\<close> and \<^verbatim>\<open>IP.Equal\<close> of the standard library;
  \<^term>\<open>None\<close> is the \<^verbatim>\<open>nil\<close> address.\<close>

definition To4 :: "IP \<Rightarrow> IP option" where
  "To4 a = (if length a = 4 then Some a
            else if length a = 16 \<and> take 12 a = v4InV6Prefix then Some (drop 12 a)
            else None)"

definition To16 :: "IP \<Rightarrow> IP option" where
  "To16 a = (if length a = 4 then Some (v4InV6Prefix @ a)
             else if length a = 16 then Some a
             else None)"

definition Equal :: "IP \<Rightarrow> IP \<Rightarrow> bool" where
  "Equal a x = (if length a = length x then a = x
                else if length a = 4 \<and> length x = 16 then take 12 x = v4InV6Prefix \<and> drop 12 x = a
                else if length a = 16 \<and> length x = 4 then take 12 a = v4InV6Prefix \<and> drop 12 a = x
                else False)"

section \<open>Host name validation\<close>

definition isAlnum :: "char \<Rightarrow> bool" where
  "isAlnum c = (isLower c \<or> isUpper c \<or> isDigit c)"

text \<open>\<^verbatim>\<open>validDomainSuffix = (?i)\.([a-z0-9][a-z0-9-]*[a-z0-9])\.?$\<close>. The label of a
  match cannot contain a dot, so the match starts at the last dot before an optional
  final dot; the result is the first submatch.\<close>

definition validDomainSuffix :: "string \<Rightarrow> string option" where
  "validDomainSuffix s =
     (let t = TrimSuffix s ''.'' in
      case LastIndex t (CHR ''.'') of
        None \<Rightarrow> None
      | Some i \<Rightarrow>
          (let lab = drop (i + 1) t in
           if 2 \<le> length lab \<and> isAlnum (hd lab) \<and> isAlnum (last lab)
              \<and> list_all (\<lambda>c. isAlnum c \<or> c = CHR ''-'') lab
           then Some lab else None))"

text \<open>\<^verbatim>\<open>allNumeric = ^[0-9]*$\<close>\<close>

definition allNumeric :: "string \<Rightarrow> bool" where
  "allNumeric s = list_all isDigit s"

definition validDomainName :: "Lib \<Rightarrow> string \<Rightarrow> bool" where
  "validDomainName lib hostname =
     (case IsDomainName lib hostname of
        (atoms, ok) \<Rightarrow>
          if \<not> ok \<or> atoms < 2 then False
          else (case validDomainSuffix hostname of
                  None \<Rightarrow> False
                | Some m \<Rightarrow> if allNumeric m then False else True))"

section \<open>Macro engine\<close>

definition isMacroLetter :: "char \<Rightarrow> bool" where
  "isMacroLetter c = (c \<in> set ''alodiphcrtvALODIPHCRTV'')"

definition isMacroDelimiter :: "char \<Rightarrow> bool" where
  "isMacroDelimiter c = (c \<in> set ''.+=,/_-'')"

text \<open>\<^verbatim>\<open>macroRe = ^{([alodiphcrtvALODIPHCRTV])([0-9]{0,3})(r?)([.+=,/_-]*)}\<close>. The digit,
  \<^verbatim>\<open>r\<close>, delimiter and brace classes are pairwise disjoint, so each group is the
  longest run of its class and a fourth digit makes the match fail. The result is the
  length of the whole match and the four submatches.\<close>

definition macroRe :: "string \<Rightarrow> (nat \<times> string \<times> string \<times> string \<times> string) option" where
  "macroRe s =
     (case s of
        [] \<Rightarrow> None
      | b # s1 \<Rightarrow>
          if b \<noteq> CHR ''{'' then None
          else (case s1 of
                  [] \<Rightarrow> None
                | l # s2 \<Rightarrow>
                    if \<not> isMacroLetter l then None
                    else
                      (let ds = takeWhile isDigit s2;
                           s3 = dropWhile isDigit s2;
                           r = (if HasPrefix s3 ''r'' then ''r'' else []);
                           s4 = drop (length r) s3;
                           dl = takeWhile isMacroDelimiter s4;
                           s5 = dropWhile isMacroDelimiter s4
                       in if 3 < length ds then None
                          else if HasPrefix s5 ''}''
                          then Some (2 + length ds + length r + length dl + 1, [l], ds, r, dl)
                          else None)))"

lemma Index_Some_less: "Index s c = Some i \<Longrightarrow> i < length s"
  by (induction s arbitrary: i) (auto split: if_splits)

function MacroIsValid :: "string \<Rightarrow> bool" where
  "MacroIsValid macroString =
     (case Index macroString (CHR ''%'') of
        None \<Rightarrow> True
      | Some percent \<Rightarrow>
          (let rest = drop (percent + 1) macroString in
           if length rest = 0 then False
           else if hd rest = CHR ''%'' \<or> hd rest = CHR ''-'' \<or> hd rest = CHR ''_''
                then MacroIsValid (drop 1 rest)
           else if hd rest = CHR ''{''
                then (case macroRe rest of
                        None \<Rightarrow> False
                      | Some m \<Rightarrow> MacroIsValid (drop (fst m) rest))
           else False))"
  by pat_completeness auto
termination
  by (relation "measure length") (auto dest: Index_Some_less)

declare MacroIsValid.simps [simp del]

definition validDomainSpec :: "Lib \<Rightarrow> string \<Rightarrow> bool" where
  "validDomainSpec lib domainSpec =
     (if validDomainName lib domainSpec then True
      else if \<not> MacroIsValid domainSpec then False
      else if HasSuffix domainSpec ''}'' then True
      else (case validDomainSuffix domainSpec of
              None \<Rightarrow> False
            | Some m \<Rightarrow> if allNumeric m then False else True))"

definition validOptionalDomainSpec :: "Lib \<Rightarrow> string \<Rightarrow> bool" where
  "validOptionalDomainSpec lib domainSpec = (domainSpec = [] \<or> validDomainSpec lib domainSpec)"

definition upperhex :: string where
  "upperhex = ''0123456789ABCDEF''"

definition shouldEscape :: "char \<Rightarrow> bool" where
  "shouldEscape c =
     (if isUpper c then False
      else if isLower c then False
      else if isDigit c then False
      else if c \<in> set ''-._~'' then False
      else True)"

definition rfc3986Escape :: "string \<Rightarrow> string" where
  "rfc3986Escape s =
     concat (map (\<lambda>c. if shouldEscape c
                       then [CHR ''%'', upperhex ! (of_char c div 16), upperhex ! (of_char c mod 16)]
                       else [c]) s)"

text \<open>\<^verbatim>\<open>hex.Encode\<close>: two lower-case hexadecimal digits per byte.\<close>

definition hextable :: string where
  "hextable = ''0123456789abcdef''"

definition hexEncode :: "IP \<Rightarrow> string" where
  "hexEncode bs = concat (map (\<lambda>b. [hextable ! unat (drop_bit 4 b), hextable ! unat (b AND 15)]) bs)"

text \<open>The \<^verbatim>\<open>i\<close> macro of an address that is not IPv4: a buffer of 32 zero bytes
  receives the hexadecimal digits of \<^verbatim>\<open>To16()\<close> (none when that is \<^verbatim>\<open>nil\<close>)
  and its bytes are written out separated by dots.\<close>

definition dottedNibbles :: "IP \<Rightarrow> string" where
  "dottedNibbles a =
     (let v6 = (case To16 a of None \<Rightarrow> [] | Some x \<Rightarrow> x);
          enc = hexEncode v6 @ replicate (32 - length (hexEncode v6)) (CHR 0x00)
      in Join (map (\<lambda>b. [b]) enc) ''.'')"

text \<open>\<^verbatim>\<open>rrs[:c.PtrAddressLimit]\<close> when there are more records than the limit; the slice
  expression panics when the limit is negative (\<^term>\<open>None\<close>).\<close>

definition truncatePtr :: "Checker \<Rightarrow> RR list \<Rightarrow> RR list option" where
  "truncatePtr c rrs =
     (if int (length rrs) > PtrAddressLimit c
      then (if PtrAddressLimit c < 0 then None else Some (take (nat (PtrAddressLimit c)) rrs))
      else Some rrs)"

text \<open>The first loop of \<^verbatim>\<open>expandPtrMacro\<close>. \<open>Inl\<close> is the early return of a host
  name equal to the target, \<open>Inr\<close> the list \<^verbatim>\<open>possibles\<close> at the end of the loop.
  The inner loop over the addresses stops at the first address equal to the client's.\<close>

fun ptrMacroProbe ::
  "Lib \<Rightarrow> Checker \<Rightarrow> RRType \<Rightarrow> string \<Rightarrow> RR list \<Rightarrow> string list \<Rightarrow> Result
     \<Rightarrow> ((string + string list) \<times> Result) outcome"
where
  "ptrMacroProbe lib c qtype target [] possibles result = Returns (Inr possibles, result)"
| "ptrMacroProbe lib c qtype target (rr # rrs) possibles result =
     (case rr of
        RR_PTR hostname \<Rightarrow>
          (case lookupAddresses lib c hostname qtype result of
             ((addresses, _, err), result') \<Rightarrow>
               if err \<noteq> None then ptrMacroProbe lib c qtype target rrs possibles result'
               else if list_ex (\<lambda>address. Equal address (ip result')) addresses then
                 (if ToLower hostname = ToLower target
                  then Returns (Inl (TrimSuffix hostname ''.''), result')
                  else ptrMacroProbe lib c qtype target rrs (possibles @ [hostname]) result')
               else ptrMacroProbe lib c qtype target rrs possibles result')
      | _ \<Rightarrow> Panic TypeAssertion)"

definition expandPtrMacro :: "Lib \<Rightarrow> Checker \<Rightarrow> Result \<Rightarrow> string \<Rightarrow> (string \<times> Result) outcome" where
  "expandPtrMacro lib c result target =
     (let qtype = (if To4 (ip result) \<noteq> None then TypeA else TypeAAAA) in
      case ReverseAddr lib (IPString lib (ip result)) of
        Inl err \<Rightarrow> Returns (''unknown'', result)
      | Inr revAddr \<Rightarrow>
          (case lookupDNS lib c revAddr TypePTR result of
             ((rrs, _, err), result1) \<Rightarrow>
               if err \<noteq> None then Returns (''unknown'', result1)
               else
                 (case truncatePtr c rrs of
                    None \<Rightarrow> Panic PtrLimitSlice
                  | Some rrs' \<Rightarrow>
                      (case ptrMacroProbe lib c qtype (Fqdn lib target) rrs' [] result1 of
                         Returns (Inl hostname, result2) \<Rightarrow> Returns (hostname, result2)
                       | Returns (Inr possibles, result2) \<Rightarrow>
                           (case find (\<lambda>possible. IsSubDomain lib (Fqdn lib target) possible) possibles of
                              Some possible \<Rightarrow> Returns (TrimSuffix possible ''.'', result2)
                            | None \<Rightarrow>
                                if length possibles > 0
                                then Returns (TrimSuffix (hd possibles) ''.'', result2)
                                else Returns (''unknown'', result2))
                       | Panic p \<Rightarrow> Panic p
                       | OutOfFuel \<Rightarrow> OutOfFuel))))"

text \<open>The switch on the lower-cased macro letter. The letter \<^verbatim>\<open>l\<close> slices the sender
  up to \<^verbatim>\<open>strings.LastIndex(sender, "@")\<close>, which is \<open>-1\<close> without an \<^verbatim>\<open>@\<close>:
  the slice panics. The letter \<^verbatim>\<open>o\<close> slices from that index plus one, which is
  \<open>0\<close> without an \<^verbatim>\<open>@\<close>.\<close>

definition macroReplacement ::
  "Lib \<Rightarrow> Checker \<Rightarrow> string \<Rightarrow> Result \<Rightarrow> string \<Rightarrow> bool \<Rightarrow> ((string \<times> error) \<times> Result) outcome"
where
  "macroReplacement lib c macroLetter result domain exp =
     (let l = ToLower macroLetter in
      if l = ''s'' then Returns ((sender result, None), result)
      else if l = ''l'' then
        (case LastIndex (sender result) (CHR ''@'') of
           None \<Rightarrow> Panic SenderSlice
         | Some i \<Rightarrow> Returns ((take i (sender result), None), result))
      else if l = ''o'' then
        Returns ((TrimSuffix (case LastIndex (sender result) (CHR ''@'') of
                                None \<Rightarrow> sender result
                              | Some i \<Rightarrow> drop (i + 1) (sender result)) ''.'', None), result)
      else if l = ''d'' then Returns ((TrimSuffix domain ''.'', None), result)
      else if l = ''i'' then
        (if To4 (ip result) = None then Returns ((dottedNibbles (ip result), None), result)
         else Returns ((IPString lib (ip result), None), result))
      else if l = ''p'' then
        (case expandPtrMacro lib c result domain of
           Returns (replacement, result') \<Rightarrow> Returns ((replacement, None), result')
         | Panic p \<Rightarrow> Panic p
         | OutOfFuel \<Rightarrow> OutOfFuel)
      else if l = ''h'' then Returns ((helo result, None), result)
      else if l = ''c'' then
        (if \<not> exp then Returns (('''', Some ''c macro not allowed outside exp''), result)
         else Returns ((IPString lib (ip result), None), result))
      else if l = ''r'' then
        (if \<not> exp then Returns (('''', Some ''r macro not allowed outside exp''), result)
         else Returns ((Hostname c, None), result))
      else if l = ''t'' then
        (if \<not> exp then Returns (('''', Some ''t macro not allowed outside exp''), result)
         else Returns ((Itoa (Now lib), None), result))
      else if l = ''v'' then
        (if To4 (ip result) = None then Returns ((''ip6'', None), result)
         else Returns ((''in-addr'', None), result))
      else Returns (('''', Some (''can't happen: impossible macro-letter: '' @ macroLetter)), result))"

fun SplitAny_from :: "string \<Rightarrow> string \<Rightarrow> string \<Rightarrow> string list" where
  "SplitAny_from cur [] delims = [cur]"
| "SplitAny_from cur (c # s) delims =
     (if c \<in> set delims then cur # SplitAny_from [] s delims
      else SplitAny_from (cur @ [c]) s delims)"

text \<open>URL escaping for an upper-case letter, then the transformers. The limit is a run of
  at most three digits, so \<^verbatim>\<open>strconv.Atoi\<close> gives a number from 0 to 999.\<close>

definition applyTransformers :: "string \<Rightarrow> string \<Rightarrow> string \<Rightarrow> string \<Rightarrow> string \<Rightarrow> string" where
  "applyTransformers macroLetter macroLimit macroReverse macroDelimiters replacement0 =
     (let replacement = (if isUpper (hd macroLetter) then rfc3986Escape replacement0
                         else replacement0)
      in if macroLimit \<noteq> [] \<or> macroReverse \<noteq> [] \<or> macroDelimiters \<noteq> [] then
           (let delims = (if macroDelimiters = [] then ''.'' else macroDelimiters);
                parts0 = SplitAny_from [] replacement delims;
                parts1 = (if macroReverse \<noteq> [] then rev parts0 else parts0);
                parts2 = (if macroLimit \<noteq> [] then
                            (case Atoi macroLimit of
                               Some limit \<Rightarrow>
                                 if limit < int (length parts1)
                                 then drop (length parts1 - nat limit) parts1 else parts1
                             | None \<Rightarrow> parts1)
                          else parts1)
            in Join parts2 ''.'')
         else replacement)"

function expandMacro_loop ::
  "Lib \<Rightarrow> Checker \<Rightarrow> string \<Rightarrow> string \<Rightarrow> Result \<Rightarrow> string \<Rightarrow> bool
     \<Rightarrow> ((string \<times> error) \<times> Result) outcome"
where
  "expandMacro_loop lib c ret domainSpec result domain exp =
     (case Index domainSpec (CHR ''%'') of
        None \<Rightarrow> Returns ((ret @ domainSpec, None), result)
      | Some percent \<Rightarrow>
          (let ret1 = ret @ take percent domainSpec;
               rest = drop (percent + 1) domainSpec
           in if length rest = 0
              then Returns (('''', Some ''trailing % in macro expansion''), result)
              else if hd rest = CHR ''%''
              then expandMacro_loop lib c (ret1 @ ''%'') (drop 1 rest) result domain exp
              else if hd rest = CHR ''-''
              then expandMacro_loop lib c (ret1 @ ''%20'') (drop 1 rest) result domain exp
              else if hd rest = CHR ''_''
              then expandMacro_loop lib c (ret1 @ '' '') (drop 1 rest) result domain exp
              else if hd rest = CHR ''{''
              then (case macroRe rest of
                      None \<Rightarrow> Returns (('''', Some (''invalid macro starting near '' @ rest)), result)
                    | Some (n, macroLetter, macroLimit, macroReverse, macroDelimiters) \<Rightarrow>
                        (case macroReplacement lib c macroLetter result domain exp of
                           Returns ((replacement, None), result') \<Rightarrow>
                             expandMacro_loop lib c
                               (ret1 @ applyTransformers macroLetter macroLimit macroReverse
                                         macroDelimiters replacement)
                               (drop n rest) result' domain exp
                         | Returns ((replacement, Some e), result') \<Rightarrow> Returns (('''', Some e), result')
                         | Panic p \<Rightarrow> Panic p
                         | OutOfFuel \<Rightarrow> OutOfFuel))
              else Returns (('''', Some (''invalid character '' @ [CHR 0x27, hd rest, CHR 0x27]
                                        @ '' following % in macro expansion'')), result)))"
  by pat_completeness auto
termination
  by (relation "measure (\<lambda>(lib, c, ret, domainSpec, result, domain, exp). length domainSpec)")
     (auto dest: Index_Some_less)

declare expandMacro_loop.simps [simp del]

definition expandMacro ::
  "Lib \<Rightarrow> Checker \<Rightarrow> string \<Rightarrow> Result \<Rightarrow> string \<Rightarrow> bool \<Rightarrow> ((string \<times> error) \<times> Result) outcome"
where
  "expandMacro lib c domainSpec result domain exp =
     (case Index domainSpec (CHR ''%'') of
        None \<Rightarrow> Returns ((domainSpec, None), result)
      | Some percent \<Rightarrow> expandMacro_loop lib c [] domainSpec result domain exp)"

definition ExpandMacro ::
  "Lib \<Rightarrow> Checker \<Rightarrow> string \<Rightarrow> Result \<Rightarrow> string \<Rightarrow> bool \<Rightarrow> ((string \<times> error) \<times> Result) outcome"
where
  "ExpandMacro lib c domainSpec result domain exp = expandMacro lib c domainSpec result domain exp"

fun trimLabels :: "int \<Rightarrow> string list \<Rightarrow> string \<times> error" where
  "trimLabels len [] = ('''', Some ''oddly long TLD'')"
| "trimLabels len (p # parts) =
     (let len' = len - int (length p) - 1 in
      if len' \<le> 253 then (Join parts ''.'', None) else trimLabels len' parts)"

definition ExpandDomainSpec ::
  "Lib \<Rightarrow> Checker \<Rightarrow> string \<Rightarrow> Result \<Rightarrow> string \<Rightarrow> bool \<Rightarrow> ((string \<times> error) \<times> Result) outcome"
where
  "ExpandDomainSpec lib c domainSpec result domain exp =
     (if domainSpec = [] then Returns ((domain, None), result)
      else (case ExpandMacro lib c domainSpec result domain exp of
              Returns ((target, err), result') \<Rightarrow>
                if err \<noteq> None then Returns ((target, err), result')
                else if length target \<le> 253 then Returns ((target, None), result')
                else Returns (trimLabels (int (length target)) (Split target (CHR ''.'')), result')
            | Panic p \<Rightarrow> Panic p
            | OutOfFuel \<Rightarrow> OutOfFuel))"

section \<open>Mechanisms\<close>

fun obind :: "'a outcome \<Rightarrow> ('a \<Rightarrow> 'b outcome) \<Rightarrow> 'b outcome" where
  "obind (Returns x) f = f x"
| "obind (Panic p) f = Panic p"
| "obind OutOfFuel f = OutOfFuel"

lemma obind_cong [fundef_cong]:
  "m = m' \<Longrightarrow> (\<And>x. m' = Returns x \<Longrightarrow> f x = f' x) \<Longrightarrow> obind m f = obind m' f'"
  by (cases m') auto

text \<open>The eight kinds, each with the fields of its Go struct. The \<^verbatim>\<open>*net.IPNet\<close> of
  \<^verbatim>\<open>ip4\<close> and \<^verbatim>\<open>ip6\<close> is the one that the parser stored.\<close>

datatype Mechanism =
    MechanismAll ResultType
  | MechanismInclude ResultType string
  | MechanismA ResultType string IPMask IPMask
  | MechanismMX ResultType string IPMask IPMask
  | MechanismPTR ResultType string
  | MechanismIp4 ResultType IPNet
  | MechanismIp6 ResultType IPNet
  | MechanismExists ResultType string

text \<open>The evaluators reach \<^verbatim>\<open>checkHost\<close> through the Checker of the result
  (\<^verbatim>\<open>result.c.checkHost\<close>); here it is the argument \<open>self\<close>.\<close>

type_synonym checkHostFn = "Result \<Rightarrow> string \<Rightarrow> bool \<Rightarrow> bool \<Rightarrow> (ResultType \<times> Result) outcome"

type_synonym evaluation = "((ResultType \<times> error) \<times> Result) outcome"

definition invalidHostname :: "string \<Rightarrow> error" where
  "invalidHostname target = Some (''invalid hostname '' @ [CHR 0x27] @ target @ [CHR 0x27])"

definition MechanismAll_Evaluate :: "ResultType \<Rightarrow> Result \<Rightarrow> string \<Rightarrow> evaluation" where
  "MechanismAll_Evaluate qualifier result domain = Returns ((qualifier, None), result)"

definition MechanismInclude_Evaluate ::
  "Lib \<Rightarrow> Checker \<Rightarrow> checkHostFn \<Rightarrow> ResultType \<Rightarrow> string \<Rightarrow> Result \<Rightarrow> string \<Rightarrow> evaluation"
where
  "MechanismInclude_Evaluate lib c self qualifier domainSpec result domain =
     obind (ExpandDomainSpec lib c domainSpec result domain False) (\<lambda>((dom, err), result1).
       if err \<noteq> None then Returns ((Permerror, err), result1)
       else if \<not> validDomainName lib dom then Returns ((NoneR, invalidHostname dom), result1)
       else obind (self result1 (Fqdn lib dom) True False) (\<lambda>(includeResult, result2).
         case includeResult of
           Pass \<Rightarrow> Returns ((qualifier, None), result2)
         | Fail \<Rightarrow> Returns ((NoneR, None), result2)
         | Softfail \<Rightarrow> Returns ((NoneR, None), result2)
         | Neutral \<Rightarrow> Returns ((NoneR, None), result2)
         | Temperror \<Rightarrow> Returns ((Temperror, None), result2)
         | Permerror \<Rightarrow> Returns ((Permerror, None), result2)
         | NoneR \<Rightarrow> Returns ((Permerror, None), result2)))"

definition MechanismA_Evaluate ::
  "Lib \<Rightarrow> Checker \<Rightarrow> ResultType \<Rightarrow> string \<Rightarrow> IPMask \<Rightarrow> IPMask \<Rightarrow> Result \<Rightarrow> string \<Rightarrow> evaluation"
where
  "MechanismA_Evaluate lib c qualifier domainSpec mask4 mask6 result0 domain =
     (let result = result0\<lparr>DNSQueries := DNSQueries result0 + 1\<rparr>;
          qtype = (if To4 (ip result) = None then TypeAAAA else TypeA)
      in obind (ExpandDomainSpec lib c domainSpec result domain False) (\<lambda>((target, err), result1).
           if err \<noteq> None then Returns ((Permerror, err), result1)
           else if \<not> validDomainName lib target then Returns ((NoneR, invalidHostname target), result1)
           else (case lookupDNS lib c target qtype result1 of
                   ((rrs, resultType, err2), result2) \<Rightarrow>
                     if resultType \<noteq> NoneR then Returns ((resultType, err2), result2)
                     else if list_ex (\<lambda>rr. case rr of
                                  RR_A a \<Rightarrow> IPNetContains lib \<lparr>net_IP = a, net_Mask = mask4\<rparr> (ip result2)
                                | RR_AAAA a \<Rightarrow> IPNetContains lib \<lparr>net_IP = a, net_Mask = mask6\<rparr> (ip result2)
                                | _ \<Rightarrow> False) rrs
                     then Returns ((qualifier, None), result2)
                     else Returns ((NoneR, None), result2))))"

fun mxLoop ::
  "Lib \<Rightarrow> Checker \<Rightarrow> ResultType \<Rightarrow> RRType \<Rightarrow> IPMask \<Rightarrow> string \<Rightarrow> int \<Rightarrow> RR list \<Rightarrow> Result \<Rightarrow> evaluation"
where
  "mxLoop lib c qualifier qtype ipmask target mxcount [] result = Returns ((NoneR, None), result)"
| "mxLoop lib c qualifier qtype ipmask target mxcount (mxrr # mxrrs) result =
     (case mxrr of
        RR_MX mx \<Rightarrow>
          if mxcount + 1 > MXAddressLimit c
          then Returns ((Permerror, Some (''limit of '' @ Itoa (MXAddressLimit c)
                                          @ '' MX results exceeded for '' @ target)), result)
          else (case lookupAddresses lib c mx qtype result of
                  ((addresses, resultType, err), result') \<Rightarrow>
                    if resultType \<noteq> NoneR then Returns ((resultType, err), result')
                    else if list_ex (\<lambda>address.
                                 IPNetContains lib \<lparr>net_IP = address, net_Mask = ipmask\<rparr> (ip result'))
                              addresses
                    then Returns ((qualifier, None), result')
                    else mxLoop lib c qualifier qtype ipmask target (mxcount + 1) mxrrs result')
      | _ \<Rightarrow> Panic TypeAssertion)"

definition MechanismMX_Evaluate ::
  "Lib \<Rightarrow> Checker \<Rightarrow> ResultType \<Rightarrow> string \<Rightarrow> IPMask \<Rightarrow> IPMask \<Rightarrow> Result \<Rightarrow> string \<Rightarrow> evaluation"
where
  "MechanismMX_Evaluate lib c qualifier domainSpec mask4 mask6 result0 domain =
     (let result = result0\<lparr>DNSQueries := DNSQueries result0 + 1\<rparr>;
          qtype = (if To4 (ip result) = None then TypeAAAA else TypeA);
          ipmask = (if To4 (ip result) = None then mask6 else mask4)
      in obind (ExpandDomainSpec lib c domainSpec result domain False) (\<lambda>((target, err), result1).
           if err \<noteq> None then Returns ((Permerror, err), result1)
           else if \<not> validDomainName lib target then Returns ((NoneR, invalidHostname target), result1)
           else (case lookupDNS lib c target TypeMX result1 of
                   ((mxrrs, resultType, err2), result2) \<Rightarrow>
                     if resultType \<noteq> NoneR then Returns ((resultType, err2), result2)
                     else mxLoop lib c qualifier qtype ipmask target 0 mxrrs result2)))"

fun ptrLoop ::
  "Lib \<Rightarrow> Checker \<Rightarrow> ResultType \<Rightarrow> RRType \<Rightarrow> string \<Rightarrow> RR list \<Rightarrow> Result \<Rightarrow> evaluation"
where
  "ptrLoop lib c qualifier qtype target [] result = Returns ((NoneR, None), result)"
| "ptrLoop lib c qualifier qtype target (rr # rrs) result =
     (case rr of
        RR_PTR hostname \<Rightarrow>
          if \<not> IsSubDomain lib target hostname then ptrLoop lib c qualifier qtype target rrs result
          else (case lookupAddresses lib c hostname qtype result of
                  ((addresses, _, err), result') \<Rightarrow>
                    if err \<noteq> None then ptrLoop lib c qualifier qtype target rrs result'
                    else if list_ex (\<lambda>address. Equal address (ip result')) addresses
                    then Returns ((qualifier, None), result')
                    else ptrLoop lib c qualifier qtype target rrs result')
      | _ \<Rightarrow> Panic TypeAssertion)"

definition MechanismPTR_Evaluate ::
  "Lib \<Rightarrow> Checker \<Rightarrow> ResultType \<Rightarrow> string \<Rightarrow> Result \<Rightarrow> string \<Rightarrow> evaluation"
where
  "MechanismPTR_Evaluate lib c qualifier domainSpec result domain =
     (let qtype = (if To4 (ip result) \<noteq> None then TypeA else TypeAAAA)
      in obind (ExpandDomainSpec lib c domainSpec result domain False) (\<lambda>((target0, err), result1).
           if err \<noteq> None then Returns ((Permerror, err), result1)
           else
             (let target = Fqdn lib target0 in
              if \<not> validDomainName lib target then Returns ((Fail, invalidHostname target), result1)
              else (case ReverseAddr lib (IPString lib (ip result1)) of
                      Inl e \<Rightarrow> Returns ((Permerror, Some e), result1)
                    | Inr revAddr \<Rightarrow>
                        (case lookupDNS lib c revAddr TypePTR result1 of
                           ((rrs, resultType, err2), result2) \<Rightarrow>
                             if err2 \<noteq> None then Returns ((resultType, err2), result2)
                             else (case truncatePtr c rrs of
                                     None \<Rightarrow> Panic PtrLimitSlice
                                   | Some rrs' \<Rightarrow>
                                       ptrLoop lib c qualifier qtype target rrs' result2))))))"

definition MechanismIp4_Evaluate :: "Lib \<Rightarrow> ResultType \<Rightarrow> IPNet \<Rightarrow> Result \<Rightarrow> string \<Rightarrow> evaluation" where
  "MechanismIp4_Evaluate lib qualifier ipnet result domain =
     (if IPNetContains lib ipnet (ip result) then Returns ((qualifier, None), result)
      else Returns ((NoneR, None), result))"

definition MechanismIp6_Evaluate :: "Lib \<Rightarrow> ResultType \<Rightarrow> IPNet \<Rightarrow> Result \<Rightarrow> string \<Rightarrow> evaluation" where
  "MechanismIp6_Evaluate lib qualifier ipnet result domain =
     (if IPNetContains lib ipnet (ip result) then Returns ((qualifier, None), result)
      else Returns ((NoneR, None), result))"

definition MechanismExists_Evaluate ::
  "Lib \<Rightarrow> Checker \<Rightarrow> ResultType \<Rightarrow> string \<Rightarrow> Result \<Rightarrow> string \<Rightarrow> evaluation"
where
  "MechanismExists_Evaluate lib c qualifier domainSpec result0 domain =
     (let result = result0\<lparr>DNSQueries := DNSQueries result0 + 1\<rparr>
      in obind (ExpandDomainSpec lib c domainSpec result domain False) (\<lambda>((target, err), result1).
           if err \<noteq> None then Returns ((Permerror, err), result1)
           else if \<not> validDomainName lib target then Returns ((NoneR, invalidHostname target), result1)
           else (case lookupAddresses lib c target TypeA result1 of
                   ((arecs, resultType, err2), result2) \<Rightarrow>
                     if resultType \<noteq> NoneR then Returns ((resultType, err2), result2)
                     else if length arecs = 0 then Returns ((NoneR, None), result2)
                     else Returns ((qualifier, None), result2))))"

fun Evaluate :: "Lib \<Rightarrow> Checker \<Rightarrow> checkHostFn \<Rightarrow> Mechanism \<Rightarrow> Result \<Rightarrow> string \<Rightarrow> evaluation" where
  "Evaluate lib c self (MechanismAll q) result domain = MechanismAll_Evaluate q result domain"
| "Evaluate lib c self (MechanismInclude q ds) result domain =
     MechanismInclude_Evaluate lib c self q ds result domain"
| "Evaluate lib c self (MechanismA q ds m4 m6) result domain =
     MechanismA_Evaluate lib c q ds m4 m6 result domain"
| "Evaluate lib c self (MechanismMX q ds m4 m6) result domain =
     MechanismMX_Evaluate lib c q ds m4 m6 result domain"
| "Evaluate lib c self (MechanismPTR q ds) result domain =
     MechanismPTR_Evaluate lib c q ds result domain"
| "Evaluate lib c self (MechanismIp4 q n) result domain = MechanismIp4_Evaluate lib q n result domain"
| "Evaluate lib c self (MechanismIp6 q n) result domain = MechanismIp6_Evaluate lib q n result domain"
| "Evaluate lib c self (MechanismExists q ds) result domain =
     MechanismExists_Evaluate lib c q ds result domain"

section \<open>Mechanism parser\<close>

definition trailingDigits :: "string \<Rightarrow> string" where
  "trailingDigits s = rev (takeWhile isDigit (rev s))"

text \<open>\<^verbatim>\<open>v4CIDRRe = /[0-9]{1,2}$\<close> and \<^verbatim>\<open>v6CIDRRe = //[0-9]{1,3}$\<close>, as
  \<^verbatim>\<open>FindStringIndex\<close>: the index where the match starts. The digits of a match end the
  string and follow a slash, so they are the longest run of digits at the end.\<close>

definition v4CIDRRe :: "string \<Rightarrow> nat option" where
  "v4CIDRRe s =
     (let d = trailingDigits s; r = take (length s - length d) s in
      if 1 \<le> length d \<and> length d \<le> 2 \<and> HasSuffix r ''/'' then Some (length r - 1) else None)"

definition v6CIDRRe :: "string \<Rightarrow> nat option" where
  "v6CIDRRe s =
     (let d = trailingDigits s; r = take (length s - length d) s in
      if 1 \<le> length d \<and> length d \<le> 3 \<and> HasSuffix r ''//'' then Some (length r - 2) else None)"

definition dualCIDR6 :: "string \<Rightarrow> string + (int \<times> string)" where
  "dualCIDR6 s =
     (case v6CIDRRe s of
        None \<Rightarrow> Inr (128, s)
      | Some loc6 \<Rightarrow>
          (case Atoi (drop (loc6 + 2) s) of
             None \<Rightarrow> Inl (''invalid ipv6 cidr range in dual-cidr: '' @ drop loc6 s)
           | Some v6len \<Rightarrow>
               if v6len > 128 then Inl (''invalid ipv6 cidr range in dual-cidr: '' @ drop loc6 s)
               else Inr (v6len, take loc6 s)))"

definition dualCIDR4 :: "string \<Rightarrow> string + (int \<times> string)" where
  "dualCIDR4 s =
     (case v4CIDRRe s of
        None \<Rightarrow> Inr (32, s)
      | Some loc4 \<Rightarrow>
          (case Atoi (drop (loc4 + 1) s) of
             None \<Rightarrow> Inl (''invalid ipv4 cidr range in dual-cidr: '' @ drop loc4 s)
           | Some v4len \<Rightarrow>
               if v4len > 32 then Inl (''invalid ipv4 cidr range in dual-cidr: '' @ drop loc4 s)
               else Inr (v4len, take loc4 s)))"

text \<open>\<^verbatim>\<open>dualCIDR\<close>: first the IPv6 length is cut off the end, then the IPv4 length.\<close>

definition dualCIDR :: "string \<Rightarrow> string + (string \<times> IPMask \<times> IPMask)" where
  "dualCIDR s =
     (case dualCIDR6 s of
        Inl e \<Rightarrow> Inl e
      | Inr (v6len, s1) \<Rightarrow>
          (case dualCIDR4 s1 of
             Inl e \<Rightarrow> Inl e
           | Inr (v4len, s2) \<Rightarrow> Inr (s2, CIDRMask v4len 32, CIDRMask v6len 128)))"

definition parseCIDR :: "Lib \<Rightarrow> string \<Rightarrow> string + (IP \<times> IPNet)" where
  "parseCIDR lib s =
     (case ParseCIDR lib s of
        Inl e \<Rightarrow> Inl e
      | Inr (a, ipnet) \<Rightarrow>
          (case Index s (CHR ''/'') of
             None \<Rightarrow> Inl (''invalid CIDR address: '' @ s)
           | Some i \<Rightarrow>
               if drop (i + 1) s \<noteq> Itoa (fst (Size (net_Mask ipnet)))
               then Inl (''invalid CIDR address: '' @ s)
               else Inr (a, ipnet)))"

text \<open>\<^verbatim>\<open>NewMechanism\<close> in two parts: the \<^verbatim>\<open>switch mtype\<close> that checks the
  parameter and builds the mechanism, and before it the lexing of qualifier, name and
  parameter.\<close>

definition newMechanismOfType ::
  "Lib \<Rightarrow> ResultType \<Rightarrow> string \<Rightarrow> string \<Rightarrow> bool \<Rightarrow> string + Mechanism"
where
  "newMechanismOfType lib qualifier mtype parameter emptyParam =
     (if mtype = ''all'' then
        (if parameter \<noteq> [] then Inl ''all doesn't take parameters''
         else Inr (MechanismAll qualifier))
      else if mtype = ''include'' then
        (if parameter = [] then Inl ''include requires a domain spec''
         else if \<not> validDomainSpec lib parameter then Inl ''invalid domain-spec''
         else Inr (MechanismInclude qualifier parameter))
      else if mtype = ''a'' then
        (if emptyParam then Inl ''empty domain in a mechanism''
         else (case dualCIDR parameter of
                 Inl e \<Rightarrow> Inl e
               | Inr (domainSpec, v4Mask, v6Mask) \<Rightarrow>
                   if \<not> validOptionalDomainSpec lib domainSpec then Inl ''invalid domain-spec''
                   else Inr (MechanismA qualifier domainSpec v4Mask v6Mask)))
      else if mtype = ''mx'' then
        (if emptyParam then Inl ''empty domain in mx mechanism''
         else (case dualCIDR parameter of
                 Inl e \<Rightarrow> Inl e
               | Inr (domainSpec, v4Mask, v6Mask) \<Rightarrow>
                   if \<not> validOptionalDomainSpec lib domainSpec then Inl ''invalid domain-spec''
                   else Inr (MechanismMX qualifier domainSpec v4Mask v6Mask)))
      else if mtype = ''ptr'' then
        (if emptyParam then Inl ''empty domain in ptr mechanism''
         else if \<not> validOptionalDomainSpec lib parameter then Inl ''invalid domain-spec''
         else Inr (MechanismPTR qualifier parameter))
      else if mtype = ''ip4'' then
        (let addr = (if \<not> Contains parameter (CHR ''/'') then parameter @ ''/32'' else parameter)
         in case parseCIDR lib addr of
              Inl e \<Rightarrow> Inl ''invalid address format''
            | Inr (a, cidr) \<Rightarrow>
                if To4 a = None then Inl ''non-IP4 address in ip4''
                else Inr (MechanismIp4 qualifier cidr))
      else if mtype = ''ip6'' then
        (let addr = (if \<not> Contains parameter (CHR ''/'') then parameter @ ''/128'' else parameter)
         in case parseCIDR lib addr of
              Inl e \<Rightarrow> Inl ''invalid address format''
            | Inr (a, cidr) \<Rightarrow>
                if length a \<noteq> 16 then Inl ''non-IP6 address in ip6:''
                else Inr (MechanismIp6 qualifier cidr))
      else if mtype = ''exists'' then
        (if parameter = [] then Inl ''exists requires a domain spec''
         else if \<not> validDomainSpec lib parameter then Inl ''invalid domain-spec''
         else Inr (MechanismExists qualifier parameter))
      else Inl (''unrecognized mechanism '' @ [CHR 0x27] @ mtype @ [CHR 0x27]))"

definition NewMechanism :: "Lib \<Rightarrow> string \<Rightarrow> string + Mechanism" where
  "NewMechanism lib raw0 =
     (if length raw0 = 0 then Inl ''empty mechanism''
      else
        (let qualifier = (if hd raw0 = CHR ''+'' then Pass
                          else if hd raw0 = CHR ''-'' then Fail
                          else if hd raw0 = CHR ''~'' then Softfail
                          else if hd raw0 = CHR ''?'' then Neutral
                          else Pass);
             raw = (if hd raw0 \<in> set ''+-~?'' then drop 1 raw0 else raw0);
             separator = IndexAny raw '':/'';
             mtype = (case separator of None \<Rightarrow> ToLower raw | Some i \<Rightarrow> ToLower (take i raw));
             parameter0 = (case separator of None \<Rightarrow> [] | Some i \<Rightarrow> drop i raw);
             colon = HasPrefix parameter0 '':'';
             parameter = (if colon then drop 1 parameter0 else parameter0);
             emptyParam = (colon \<and> length parameter = 0)
         in newMechanismOfType lib qualifier mtype parameter emptyParam))"

section \<open>Mechanism serialiser\<close>




section \<open>Record parser\<close>

record SPFRecord =
  Mechanisms :: "Mechanism list"
  Exp :: string
  Redirect :: string
  OtherModifiers :: "string list"

definition isNameChar :: "char \<Rightarrow> bool" where
  "isNameChar c = (isAlnum c \<or> c \<in> set ''_.-'')"

text \<open>\<^verbatim>\<open>modifierRe = ^((?i)[a-z][a-z0-9_.-]*)=(.*)\<close>: the name and the value. The
  equals sign is not a name character, so the name is the longest run of name characters;
  the dot of the value does not match a line feed.\<close>

definition modifierRe :: "string \<Rightarrow> (string \<times> string) option" where
  "modifierRe s =
     (if s = [] \<or> \<not> (isLower (hd s) \<or> isUpper (hd s)) then None
      else (let name = takeWhile isNameChar s; rest = dropWhile isNameChar s in
            if HasPrefix rest ''='' then Some (name, takeWhile (\<lambda>c. c \<noteq> CHR 0x0A) (drop 1 rest))
            else None))"

fun parseFields :: "Lib \<Rightarrow> SPFRecord \<Rightarrow> string list \<Rightarrow> string + SPFRecord" where
  "parseFields lib record [] = Inr record"
| "parseFields lib record (field # rest) =
     (case modifierRe field of
        Some (name, val) \<Rightarrow>
          if ToLower name = ''redirect'' then
            (if Redirect record \<noteq> [] then Inl ''multiple redirect modifiers''
             else if \<not> validDomainSpec lib val then Inl ''invalid domain-spec in redirect''
             else parseFields lib (record\<lparr>Redirect := val\<rparr>) rest)
          else if ToLower name = ''exp'' then
            (if Exp record \<noteq> [] then Inl ''multiple exp modifiers''
             else if \<not> validDomainSpec lib val then Inl ''invalid domain-spec in exp''
             else parseFields lib (record\<lparr>Exp := val\<rparr>) rest)
          else
            (if \<not> MacroIsValid val then Inl ''invalid macro-string in modifier''
             else parseFields lib (record\<lparr>OtherModifiers := OtherModifiers record @ [field]\<rparr>) rest)
      | None \<Rightarrow>
          (case NewMechanism lib field of
             Inl err \<Rightarrow> Inl (''In field '' @ [CHR 0x27] @ field @ [CHR 0x27] @ '': '' @ err)
           | Inr m \<Rightarrow> parseFields lib (record\<lparr>Mechanisms := Mechanisms record @ [m]\<rparr>) rest))"

definition ParseSPF :: "Lib \<Rightarrow> string \<Rightarrow> string + SPFRecord" where
  "ParseSPF lib s =
     (let fs = Fields s in
      if length fs = 0 then Inl ''empty record''
      else if ToLower (hd fs) \<noteq> ''v=spf1'' then Inl ''record doesn't begin with v=spf1''
      else parseFields lib \<lparr>Mechanisms = [], Exp = [], Redirect = [], OtherModifiers = []\<rparr>
             (tl fs))"

section \<open>The evaluator\<close>

text \<open>\<^verbatim>\<open>invalidCharRe = [^ -~]\<close>, as \<^verbatim>\<open>FindString\<close>: the first byte outside
  \<open>0x20\<close> to \<open>0x7E\<close>, or the empty string.\<close>

definition invalidCharRe :: "string \<Rightarrow> string" where
  "invalidCharRe s =
     (case find (\<lambda>ch. \<not> (32 \<le> (of_char ch :: nat) \<and> (of_char ch :: nat) \<le> 126)) s of
        None \<Rightarrow> []
      | Some ch \<Rightarrow> [ch])"

definition limitExceeded :: "Checker \<Rightarrow> error" where
  "limitExceeded c = Some (''limit of '' @ Itoa (DNSLimit c) @ '' dns queries exceeded'')"

text \<open>The explanation step of \<^verbatim>\<open>checkHostCore\<close>, entered when a mechanism gave
  \<^verbatim>\<open>Fail\<close> without an error, outside an include, in a record with an \<^verbatim>\<open>exp\<close>
  modifier. The value is what \<^verbatim>\<open>checkHostCore\<close> returns.\<close>

definition explanationStep ::
  "Lib \<Rightarrow> Checker \<Rightarrow> string \<Rightarrow> Result \<Rightarrow> string \<Rightarrow> (ResultType \<times> Result) outcome"
where
  "explanationStep lib c expSpec result domain =
     obind (ExpandDomainSpec lib c expSpec result domain False) (\<lambda>((target, err), result1).
       if err \<noteq> None then Returns (Permerror, result1\<lparr>Error := err\<rparr>)
       else if \<not> validDomainName lib target then Returns (Permerror, result1)
       else (case resolve c target TypeTXT of
               Inl e \<Rightarrow> Returns (Fail, result1)
             | Inr m \<Rightarrow>
                 if Rcode m = RcodeSuccess \<and> length (Answer m) = 1 then
                   (case hd (Answer m) of
                      RR_TXT txt \<Rightarrow>
                        obind (ExpandMacro lib c (concat txt) result1 domain True)
                          (\<lambda>((explanation, _), result2).
                             Returns (Fail, result2\<lparr>Explanation := explanation\<rparr>))
                    | _ \<Rightarrow> Returns (Fail, result1))
                 else Returns (Fail, result1)))"

text \<open>The loop over the mechanisms of a record. \<^term>\<open>None\<close> means that the loop fell
  off the end of the record; \<^term>\<open>Some r\<close> is the value that \<^verbatim>\<open>checkHostCore\<close>
  returns from inside the loop.\<close>

fun walk ::
  "Lib \<Rightarrow> Checker \<Rightarrow> checkHostFn \<Rightarrow> SPFRecord \<Rightarrow> bool \<Rightarrow> Mechanism list \<Rightarrow> Result \<Rightarrow> string
     \<Rightarrow> (ResultType option \<times> Result) outcome"
where
  "walk lib c self mechanisms include [] result domain = Returns (None, result)"
| "walk lib c self mechanisms include (mechanism # rest) result domain =
     obind (Evaluate lib c self mechanism result domain) (\<lambda>((resultType, err), result1).
       (let result2 = result1\<lparr>Type := resultType\<rparr> in
        if DNSQueries result2 > DNSLimit c
        then Returns (Some Permerror, result2\<lparr>Error := limitExceeded c\<rparr>)
        else if resultType \<noteq> NoneR then
          (let result3 = result2\<lparr>Error := err\<rparr> in
           if err = None \<and> \<not> include \<and> resultType = Fail \<and> Exp mechanisms \<noteq> []
           then obind (explanationStep lib c (Exp mechanisms) result3 domain)
                  (\<lambda>(r, result4). Returns (Some r, result4))
           else Returns (Some resultType, result3))
        else walk lib c self mechanisms include rest result2 domain))"

definition checkHostCore ::
  "Lib \<Rightarrow> Checker \<Rightarrow> checkHostFn \<Rightarrow> Result \<Rightarrow> string \<Rightarrow> bool \<Rightarrow> bool \<Rightarrow> (ResultType \<times> Result) outcome"
where
  "checkHostCore lib c self result0 domain include redirect =
     (if \<not> snd (IsDomainName lib domain)
      then Returns (NoneR, result0\<lparr>Error := Some ''invalid domain''\<rparr>)
      else if \<not> IsFqdn lib domain
      then Returns (NoneR, result0\<lparr>Error := Some ''domain not fully qualified''\<rparr>)
      else
        (let result1 = (if \<not> Contains (sender result0) (CHR ''@'')
                        then result0\<lparr>sender := ''postmaster@'' @ sender result0\<rparr> else result0);
             result2 = (if HasPrefix (sender result1) ''@''
                        then result1\<lparr>sender := ''postmaster'' @ sender result1\<rparr> else result1);
             result3 = result2\<lparr>DNSQueries := DNSQueries result2 + 1\<rparr>
         in if DNSQueries result3 > DNSLimit c
            then Returns (Permerror, result3\<lparr>Error := limitExceeded c\<rparr>)
            else (case getSPFRecord lib c domain of
                    (record, resultType, err) \<Rightarrow>
                      if err \<noteq> None then Returns (resultType, result3\<lparr>Error := err\<rparr>)
                      else if record = []
                      then (if redirect then Returns (Permerror, result3)
                            else Returns (resultType, result3))
                      else if invalidCharRe record \<noteq> []
                      then Returns (Permerror,
                             result3\<lparr>Error := Some (''invalid character '' @ invalidCharRe record)\<rparr>)
                      else (case ParseSPF lib record of
                              Inl e \<Rightarrow> Returns (Permerror, result3\<lparr>Error := Some e\<rparr>)
                            | Inr mechanisms \<Rightarrow>
                                obind (walk lib c self mechanisms include (Mechanisms mechanisms)
                                         result3 domain)
                                  (\<lambda>(r, result4).
                                     case r of
                                       Some resultType' \<Rightarrow> Returns (resultType', result4)
                                     | None \<Rightarrow>
                                         if Redirect mechanisms \<noteq> [] then
                                           obind (ExpandDomainSpec lib c (Redirect mechanisms)
                                                    result4 domain False)
                                             (\<lambda>((target, err'), result5).
                                                if err' \<noteq> None then Returns (Permerror, result5)
                                                else if \<not> validDomainName lib target
                                                then Returns (Permerror, result5)
                                                else self result5 (Fqdn lib target) False True)
                                         else Returns (Neutral, result4))))))"

text \<open>\<^verbatim>\<open>checkHost\<close> calls \<^verbatim>\<open>checkHostCore\<close>, which reaches \<^verbatim>\<open>checkHost\<close> again
  for an include and for a redirect. The first argument bounds the depth of these nested
  calls.\<close>

primrec checkHost ::
  "nat \<Rightarrow> Lib \<Rightarrow> Checker \<Rightarrow> Result \<Rightarrow> string \<Rightarrow> bool \<Rightarrow> bool \<Rightarrow> (ResultType \<times> Result) outcome"
where
  "checkHost 0 = (\<lambda>lib c result domain include redirect. OutOfFuel)"
| "checkHost (Suc n) =
     (\<lambda>lib c result domain include redirect.
        checkHostCore lib c (checkHost n lib c) result domain include redirect)"

text \<open>A nested call is made only after the counter of DNS queries was raised and found
  within the limit, so this much fuel is enough for a call that starts with the given
  \<^verbatim>\<open>Result\<close>.\<close>

definition enoughFuel :: "Checker \<Rightarrow> Result \<Rightarrow> nat" where
  "enoughFuel c result = Suc (nat (DNSLimit c - DNSQueries result))"

definition newResult :: "IP \<Rightarrow> string \<Rightarrow> string \<Rightarrow> Result" where
  "newResult a mailFrom heloName =
     \<lparr>Type = NoneR, Error = None, DNSQueries = 0, VoidLookups = 0, Explanation = [],
      UsedHelo = False, ip = a, sender = mailFrom, helo = heloName\<rparr>"

definition CheckHost :: "Lib \<Rightarrow> Checker \<Rightarrow> IP \<Rightarrow> string \<Rightarrow> string \<Rightarrow> string \<Rightarrow> Result outcome" where
  "CheckHost lib c a domain mailFrom heloName =
     (let result = newResult a mailFrom heloName in
      obind (checkHost (enoughFuel c result) lib c result domain False False)
        (\<lambda>(r, result'). Returns (result'\<lparr>Type := r\<rparr>)))"

section \<open>A library instance and resolvers for worked examples\<close>

text \<open>An instance of \<open>Lib\<close> that behaves like \<^verbatim>\<open>github.com/miekg/dns\<close> and package
  \<^verbatim>\<open>net\<close> on the inputs of the examples below: domain names of plain labels (no
  escapes) and IPv4 addresses in dotted-decimal form. Other inputs are reported as errors.\<close>

definition labelsOf :: "string \<Rightarrow> string list" where
  "labelsOf s = Split (TrimSuffix s ''.'') (CHR ''.'')"

definition exIsDomainName :: "string \<Rightarrow> int \<times> bool" where
  "exIsDomainName s =
     (if s = [] then (0, False)
      else if s = ''.'' then (0, True)
      else (int (length (labelsOf s)),
            list_all (\<lambda>l. 1 \<le> length l \<and> length l \<le> 63) (labelsOf s) \<and> length s \<le> 254))"

definition exIsFqdn :: "string \<Rightarrow> bool" where
  "exIsFqdn s = HasSuffix s ''.''"

definition exFqdn :: "string \<Rightarrow> string" where
  "exFqdn s = (if exIsFqdn s then s else s @ ''.'')"

definition exIsSubDomain :: "string \<Rightarrow> string \<Rightarrow> bool" where
  "exIsSubDomain parent child =
     (let p = labelsOf (ToLower parent); ch = labelsOf (ToLower child) in
      length p \<le> length ch \<and> drop (length ch - length p) ch = p)"

definition exIPString :: "IP \<Rightarrow> string" where
  "exIPString a =
     (case To4 a of
        Some b \<Rightarrow> Join (map (\<lambda>x. Itoa (uint x)) b) ''.''
      | None \<Rightarrow> ''?'')"

definition exParseIPv4 :: "string \<Rightarrow> IP option" where
  "exParseIPv4 s =
     (let parts = Split s (CHR ''.'') in
      if length parts = 4 \<and> list_all (\<lambda>p. p \<noteq> [] \<and> length p \<le> 3 \<and> list_all isDigit p
                                            \<and> digitsVal 0 p \<le> 255) parts
      then Some (map (\<lambda>p. of_nat (digitsVal 0 p)) parts) else None)"

definition exReverseAddr :: "string \<Rightarrow> string + string" where
  "exReverseAddr s =
     (case exParseIPv4 s of
        None \<Rightarrow> Inl (''unrecognized address: '' @ s)
      | Some a \<Rightarrow> Inr (Join (rev (Split s (CHR ''.''))) ''.'' @ ''.in-addr.arpa.''))"

definition exMaskBytes :: "int \<Rightarrow> IP" where
  "exMaskBytes ones =
     map (\<lambda>i. of_nat (256 - 2 ^ (8 - min 8 (nat ones - 8 * i)))) [0, 1, 2, 3]"

definition exParseCIDR :: "string \<Rightarrow> string + IP \<times> IPNet" where
  "exParseCIDR s =
     (case Index s (CHR ''/'') of
        None \<Rightarrow> Inl (''invalid CIDR address: '' @ s)
      | Some i \<Rightarrow>
          (case (exParseIPv4 (take i s), Atoi (drop (i + 1) s)) of
             (Some a, Some n) \<Rightarrow>
               if list_all isDigit (drop (i + 1) s) \<and> n \<le> 32
               then Inr (a, \<lparr>net_IP = map2 (AND) a (exMaskBytes n), net_Mask = CIDRMask n 32\<rparr>)
               else Inl (''invalid CIDR address: '' @ s)
           | _ \<Rightarrow> Inl (''invalid CIDR address: '' @ s)))"

definition exIPNetString :: "IPNet \<Rightarrow> string" where
  "exIPNetString n = exIPString (net_IP n) @ ''/'' @ Itoa (fst (Size (net_Mask n)))"

definition exIPNetContains :: "IPNet \<Rightarrow> IP \<Rightarrow> bool" where
  "exIPNetContains n a =
     (case (To4 (net_IP n), To4 a) of
        (Some nn, Some x) \<Rightarrow>
          map2 (AND) nn (exMaskBytes (fst (Size (net_Mask n))))
            = map2 (AND) x (exMaskBytes (fst (Size (net_Mask n))))
      | _ \<Rightarrow> False)"

definition exLib :: Lib where
  "exLib = \<lparr>IsDomainName = exIsDomainName, IsFqdn = exIsFqdn, Fqdn = exFqdn,
            IsSubDomain = exIsSubDomain, ReverseAddr = exReverseAddr, IPString = exIPString,
            ParseCIDR = exParseCIDR, IPNetString = exIPNetString,
            IPNetContains = exIPNetContains, Now = 0\<rparr>"

text \<open>A resolver over a zone given as a list of names with their records, in the manner
  of the resolver of the repository's tests: an unknown name is a name error, a known
  name answers with its records of the type asked for.\<close>

definition zoneResolver :: "(string \<times> RR list) list \<Rightarrow> string \<Rightarrow> RRType \<Rightarrow> string + Msg" where
  "zoneResolver zone name qtype =
     (case map_of zone (ToLower name) of
        None \<Rightarrow> Inr \<lparr>Rcode = RcodeNameError, Answer = []\<rparr>
      | Some rrs \<Rightarrow> Inr \<lparr>Rcode = RcodeSuccess, Answer = filter (\<lambda>rr. Rrtype rr = qtype) rrs\<rparr>)"

definition exChecker :: "(string \<Rightarrow> RRType \<Rightarrow> string + Msg) \<Rightarrow> Checker" where
  "exChecker r = \<lparr>Resolver = r, DNSLimit = 10, MXAddressLimit = 10, VoidQueryLimit = 2,
                  PtrAddressLimit = 10, Hostname = ''mx.example.org''\<rparr>"

text \<open>Two faulty resolvers: the query for one name gets the response code
  \<^verbatim>\<open>SERVFAIL\<close>, or fails in transport.\<close>

definition servfailAt ::
  "string \<Rightarrow> (string \<Rightarrow> RRType \<Rightarrow> string + Msg) \<Rightarrow> string \<Rightarrow> RRType \<Rightarrow> string + Msg" where
  "servfailAt failing r name qtype =
     (if ToLower name = failing then Inr \<lparr>Rcode = RcodeServerFailure, Answer = []\<rparr>
      else r name qtype)"

definition timeoutAt ::
  "string \<Rightarrow> (string \<Rightarrow> RRType \<Rightarrow> string + Msg) \<Rightarrow> string \<Rightarrow> RRType \<Rightarrow> string + Msg" where
  "timeoutAt failing r name qtype =
     (if ToLower name = failing then Inl ''i/o timeout'' else r name qtype)"

text \<open>The zones of the examples. The client is \<^verbatim>\<open>192.0.2.1\<close> or \<^verbatim>\<open>10.0.0.1\<close>.\<close>

definition txtZone :: "string \<Rightarrow> (string \<times> RR list) list" where
  "txtZone record = [(''example.com.'', [RR_TXT [record]])]"

definition zoneInclude :: "(string \<times> RR list) list" where
  "zoneInclude = [(''a.test.'', [RR_TXT [''v=spf1 include:b.test -all'']]),
                  (''b.test.'', [RR_TXT [''v=spf1 ip4:10.0.0.1 -all'']])]"

definition zoneRedirect :: "(string \<times> RR list) list" where
  "zoneRedirect = [(''example.com.'', [RR_TXT [''v=spf1 redirect=policy.example.net'']])]"

definition zonePtr :: "(string \<times> RR list) list" where
  "zonePtr = [(''example.com.'', [RR_TXT [''v=spf1 ptr -all'']]),
              (''1.2.0.192.in-addr.arpa.'',
               [RR_PTR ''a.example.com.'', RR_PTR ''b.example.com.'', RR_PTR ''c.example.com.''])]"

definition zoneElevenPtr :: "(string \<times> RR list) list" where
  "zoneElevenPtr =
     [(''example.com.'', [RR_TXT [''v=spf1 ptr ptr ptr ptr ptr ptr ptr ptr ptr ptr ptr -all'']]),
      (''1.2.0.192.in-addr.arpa.'', [RR_PTR ''mail.example.org.''])]"

definition zoneElevenA :: "(string \<times> RR list) list" where
  "zoneElevenA =
     [(''example.com.'', [RR_TXT [''v=spf1 a a a a a a a a a a a -all''], RR_A [192, 0, 2, 55]])]"

definition client :: Result where
  "client = newResult [192, 0, 2, 1] ''x@example.com'' ''mail.example.com''"


text \<open>Invariants of the evaluation state: the sender contains an \<^verbatim>\<open>@\<close>; a step changes
  only the counter of void lookups; the outcome of a step of the macro engine and of the
  evaluator.\<close>

definition hasAt :: "Result \<Rightarrow> bool" where
  "hasAt result = Contains (sender result) (CHR ''@'')"

definition voidOnly :: "Result \<Rightarrow> Result \<Rightarrow> bool" where
  "voidOnly result result' = (\<exists>v. result' = result\<lparr>VoidLookups := v\<rparr>)"

definition macroOK :: "Checker \<Rightarrow> Result \<Rightarrow> ('a \<times> Result) outcome \<Rightarrow> bool" where
  "macroOK c r out =
     (case out of
        Returns (x, r') \<Rightarrow> voidOnly r r'
      | Panic p \<Rightarrow> p = PtrLimitSlice \<and> PtrAddressLimit c < 0
      | OutOfFuel \<Rightarrow> False)"

definition stepOK :: "Checker \<Rightarrow> Result \<Rightarrow> ('a \<times> Result) outcome \<Rightarrow> bool" where
  "stepOK c r out =
     (case out of
        Returns (x, r') \<Rightarrow> DNSQueries r \<le> DNSQueries r' \<and> (hasAt r \<longrightarrow> hasAt r')
      | Panic p \<Rightarrow> p = PtrLimitSlice \<and> PtrAddressLimit c < 0
      | OutOfFuel \<Rightarrow> False)"

definition selfOK :: "Checker \<Rightarrow> int \<Rightarrow> checkHostFn \<Rightarrow> bool" where
  "selfOK c q0 self = (\<forall>r d i rd. q0 \<le> DNSQueries r \<longrightarrow> stepOK c r (self r d i rd))"

definition afterInit :: "Result \<Rightarrow> Result" where
  "afterInit r =
     (let result1 = (if \<not> Contains (sender r) (CHR ''@'')
                     then r\<lparr>sender := ''postmaster@'' @ sender r\<rparr> else r);
          result2 = (if HasPrefix (sender result1) ''@''
                     then result1\<lparr>sender := ''postmaster'' @ sender result1\<rparr> else result1)
      in result2\<lparr>DNSQueries := DNSQueries result2 + 1\<rparr>)"

definition zoneLocalPart :: "(string \<times> RR list) list" where
  "zoneLocalPart = [(''example.com.'', [RR_TXT [''v=spf1 exists:%{l}.%{o}.example.com -all'']]),
                    (''postmaster.example.com.example.com.'', [RR_A [127, 0, 0, 2]])]"




text \<open>Predicates on mechanisms and on their text for the round trip of the canonical text.
  A text has no CIDR tail when the character before its final run of digits, if there is
  one, is not a slash; \<open>cidr4\<close> and \<open>cidr6\<close> are the two suffixes that
  \<^verbatim>\<open>mechanismString\<close> writes for a mask, and \<open>qualifierChar\<close> is the prefix it writes for
  a qualifier. A mechanism is well formed when it has the shape of the mechanisms that
  \<^verbatim>\<open>NewMechanism\<close> builds for the names in \<open>mechanismNames\<close>.\<close>

definition noCidrTail :: "string \<Rightarrow> bool" where
  "noCidrTail s = (case dropWhile isDigit (rev s) of [] \<Rightarrow> True | x # _ \<Rightarrow> x \<noteq> CHR ''/'')"









section \<open>The include mechanism\<close>

text \<open>
  Claim C3. For an include mechanism whose domain-spec expands to a valid host name, the
  result of the recursive \<^verbatim>\<open>checkHost\<close> call on the expanded domain is mapped as
  follows: pass gives the qualifier of the include; fail, softfail and neutral give
  none, that is no match; temperror gives temperror; permerror and none give permerror.
  No error is attached, the state is the one left by the recursive call, and on no match
  within the DNS limit the walk goes on with the next mechanism.
\<close>

theorem include_maps_recursive_result:
  assumes "ExpandDomainSpec lib c domainSpec result domain False = Returns ((target, None), result1)"
      and "validDomainName lib target"
      and "checkHost n lib c result1 (Fqdn lib target) True False = Returns (includeResult, result2)"
  shows "\<exists>r. Evaluate lib c (checkHost n lib c) (MechanismInclude qualifier domainSpec) result domain
               = Returns ((r, None), result2)
           \<and> (includeResult = Pass \<longrightarrow> r = qualifier)
           \<and> (includeResult \<in> {Fail, Softfail, Neutral} \<longrightarrow> r = NoneR)
           \<and> (includeResult = Temperror \<longrightarrow> r = Temperror)
           \<and> (includeResult \<in> {Permerror, NoneR} \<longrightarrow> r = Permerror)
           \<and> (r = NoneR \<and> DNSQueries result2 \<le> DNSLimit c \<longrightarrow>
                walk lib c (checkHost n lib c) mechanisms include
                  (MechanismInclude qualifier domainSpec # rest) result domain
                = walk lib c (checkHost n lib c) mechanisms include rest
                    (result2\<lparr>Type := NoneR\<rparr>) domain)"
  using assms
  by (cases includeResult) (simp_all add: MechanismInclude_Evaluate_def)

theorem include_maps_recursive_result_witness:
  "ExpandDomainSpec exLib (exChecker (zoneResolver zoneInclude)) ''b.test''
       ((newResult [10, 0, 0, 1] ''x@a.test'' [])\<lparr>DNSQueries := 1\<rparr>) ''a.test.'' False
     = Returns ((''b.test'', None), (newResult [10, 0, 0, 1] ''x@a.test'' [])\<lparr>DNSQueries := 1\<rparr>)
   \<and> validDomainName exLib ''b.test''
   \<and> checkHost 5 exLib (exChecker (zoneResolver zoneInclude))
         ((newResult [10, 0, 0, 1] ''x@a.test'' [])\<lparr>DNSQueries := 1\<rparr>) (Fqdn exLib ''b.test'') True False
       = Returns (Pass, (newResult [10, 0, 0, 1] ''x@a.test'' [])\<lparr>DNSQueries := 2, Type := Pass\<rparr>)
   \<and> Evaluate exLib (exChecker (zoneResolver zoneInclude))
         (checkHost 5 exLib (exChecker (zoneResolver zoneInclude)))
         (MechanismInclude Softfail ''b.test'')
         ((newResult [10, 0, 0, 1] ''x@a.test'' [])\<lparr>DNSQueries := 1\<rparr>) ''a.test.''
       = Returns ((Softfail, None), (newResult [10, 0, 0, 1] ''x@a.test'' [])\<lparr>DNSQueries := 2, Type := Pass\<rparr>)"
proof -
  let ?c = "exChecker (zoneResolver zoneInclude)"
  let ?r1 = "(newResult [10, 0, 0, 1] ''x@a.test'' [])\<lparr>DNSQueries := 1\<rparr>"
  let ?r2 = "(newResult [10, 0, 0, 1] ''x@a.test'' [])\<lparr>DNSQueries := 2, Type := Pass\<rparr>"
  have h1: "ExpandDomainSpec exLib ?c ''b.test'' ?r1 ''a.test.'' False = Returns ((''b.test'', None), ?r1)"
    by code_simp
  have h2: "validDomainName exLib ''b.test''"
    by code_simp
  have h3: "checkHost 5 exLib ?c ?r1 (Fqdn exLib ''b.test'') True False = Returns (Pass, ?r2)"
    by code_simp
  from include_maps_recursive_result
         [OF h1 h2 h3, of Softfail "\<lparr>Mechanisms = [], Exp = [], Redirect = [], OtherModifiers = []\<rparr>"
            False "[]"] h1 h2 h3
  show ?thesis by auto
qed

section \<open>The DNS query counter\<close>

text \<open>
  Claim C1. Every mechanism that issues DNS queries (include, a, mx, ptr, exists) raises
  the counter of DNS queries once when it is evaluated, every call of \<^verbatim>\<open>checkHost\<close>
  raises it once, and a counter above \<^verbatim>\<open>DNSLimit\<close> ends the evaluation with
  permerror. The code of the \<^verbatim>\<open>ptr\<close> mechanism never touches the counter: a record
  of eleven \<^verbatim>\<open>ptr\<close> terms is evaluated to the end with the counter at 1 (the record
  fetch), where eleven \<^verbatim>\<open>a\<close> terms end in permerror with the counter at 11. The
  evaluation of one \<^verbatim>\<open>ptr\<close> term leaves the counter as it was, the evaluation of one
  \<^verbatim>\<open>a\<close> term raises it by one.
\<close>

theorem ptr_mechanism_not_counted:
  "checkHost 11 exLib (exChecker (zoneResolver zoneElevenPtr)) client ''example.com.'' False False
     = Returns (Fail, client\<lparr>Type := Fail, DNSQueries := 1\<rparr>)
   \<and> checkHost 11 exLib (exChecker (zoneResolver zoneElevenA)) client ''example.com.'' False False
     = Returns (Permerror, client\<lparr>Error := limitExceeded (exChecker (zoneResolver zoneElevenA)),
                                    DNSQueries := 11\<rparr>)
   \<and> MechanismPTR_Evaluate exLib (exChecker (zoneResolver zoneElevenPtr)) Pass [] client ''example.com.''
     = Returns ((NoneR, None), client)
   \<and> MechanismA_Evaluate exLib (exChecker (zoneResolver zoneElevenA)) Pass [] (Mask 32 32) (Mask 128 128)
        client ''example.com.''
     = Returns ((NoneR, None), client\<lparr>DNSQueries := 1\<rparr>)"
  by code_simp

section \<open>The record fetch and the redirect flag\<close>

text \<open>
  Claim C4. After the record fetch \<^verbatim>\<open>checkHost\<close> returns the classification of the
  fetch when it is not none, and the redirect flag only turns none into permerror. The
  code returns permerror for every fetch without a record and without an error value when
  the redirect flag is set: a fetch answered with \<^verbatim>\<open>SERVFAIL\<close> is classified
  temperror, and \<^verbatim>\<open>checkHost\<close> returns permerror for it when it follows a redirect
  (called with the flag, and reached through a \<^verbatim>\<open>redirect\<close> modifier), temperror
  when it does not; a transport error behind the same redirect gives temperror.
\<close>

theorem redirect_servfail_is_permerror:
  "getSPFRecord exLib (exChecker (servfailAt ''policy.example.net.'' (zoneResolver zoneRedirect)))
       ''policy.example.net.''
     = ([], Temperror, None)
   \<and> checkHost 11 exLib (exChecker (servfailAt ''policy.example.net.'' (zoneResolver zoneRedirect)))
       client ''policy.example.net.'' False True
     = Returns (Permerror, client\<lparr>DNSQueries := 1\<rparr>)
   \<and> checkHost 11 exLib (exChecker (servfailAt ''policy.example.net.'' (zoneResolver zoneRedirect)))
       client ''example.com.'' False False
     = Returns (Permerror, client\<lparr>DNSQueries := 2\<rparr>)
   \<and> checkHost 11 exLib (exChecker (servfailAt ''policy.example.net.'' (zoneResolver zoneRedirect)))
       client ''policy.example.net.'' False False
     = Returns (Temperror, client\<lparr>DNSQueries := 1\<rparr>)
   \<and> checkHost 11 exLib (exChecker (timeoutAt ''policy.example.net.'' (zoneResolver zoneRedirect)))
       client ''example.com.'' False False
     = Returns (Temperror, client\<lparr>Error := Some ''i/o timeout'', DNSQueries := 2\<rparr>)"
  by code_simp

section \<open>The ptr mechanism\<close>

text \<open>
  Claim C5. When the PTR lookup fails with a transport error, the \<^verbatim>\<open>ptr\<close> mechanism
  yields none and the \<^verbatim>\<open>p\<close> macro yields \<^verbatim>\<open>unknown\<close>. The code of the mechanism
  returns the classification of the gateway, temperror, with the error, and the evaluation
  of the record ends with temperror; the macro yields \<^verbatim>\<open>unknown\<close>. A PTR lookup
  answered with \<^verbatim>\<open>SERVFAIL\<close> does give no match.
\<close>

theorem ptr_transport_error_is_temperror:
  "MechanismPTR_Evaluate exLib (exChecker (timeoutAt ''1.2.0.192.in-addr.arpa.'' (zoneResolver zonePtr)))
       Pass [] client ''example.com.''
     = Returns ((Temperror, Some ''i/o timeout''), client)
   \<and> checkHost 11 exLib (exChecker (timeoutAt ''1.2.0.192.in-addr.arpa.'' (zoneResolver zonePtr)))
       client ''example.com.'' False False
     = Returns (Temperror, client\<lparr>Type := Temperror, Error := Some ''i/o timeout'', DNSQueries := 1\<rparr>)
   \<and> expandPtrMacro exLib (exChecker (timeoutAt ''1.2.0.192.in-addr.arpa.'' (zoneResolver zonePtr)))
       client ''example.com.''
     = Returns (''unknown'', client)
   \<and> MechanismPTR_Evaluate exLib (exChecker (servfailAt ''1.2.0.192.in-addr.arpa.'' (zoneResolver zonePtr)))
       Pass [] client ''example.com.''
     = Returns ((NoneR, None), client)"
  by code_simp

text \<open>
  Claim C6. Every evaluator with a domain-spec yields permerror when the expansion fails
  and none with an error when the expanded host name is invalid. The \<^verbatim>\<open>ptr\<close>
  evaluator returns fail with the error for an invalid host name, where the \<^verbatim>\<open>a\<close>
  evaluator returns none: with the HELO name \<^verbatim>\<open>localhost\<close> the record
  \<^verbatim>\<open>v=spf1 ptr:%{h} +all\<close> evaluates to fail and \<^verbatim>\<open>v=spf1 a:%{h} +all\<close> to pass.
\<close>

theorem ptr_invalid_host_is_fail:
  "MechanismPTR_Evaluate exLib (exChecker (zoneResolver [])) Pass ''%{h}''
       (newResult [192, 0, 2, 1] ''x@example.com'' ''localhost'') ''example.com.''
     = Returns ((Fail, invalidHostname ''localhost.''),
                newResult [192, 0, 2, 1] ''x@example.com'' ''localhost'')
   \<and> MechanismA_Evaluate exLib (exChecker (zoneResolver [])) Pass ''%{h}'' (Mask 32 32) (Mask 128 128)
       (newResult [192, 0, 2, 1] ''x@example.com'' ''localhost'') ''example.com.''
     = Returns ((NoneR, invalidHostname ''localhost''),
                (newResult [192, 0, 2, 1] ''x@example.com'' ''localhost'')\<lparr>DNSQueries := 1\<rparr>)
   \<and> checkHost 11 exLib (exChecker (zoneResolver (txtZone ''v=spf1 ptr:%{h} +all'')))
       (newResult [192, 0, 2, 1] ''x@example.com'' ''localhost'') ''example.com.'' False False
     = Returns (Fail, (newResult [192, 0, 2, 1] ''x@example.com'' ''localhost'')
                        \<lparr>Type := Fail, Error := invalidHostname ''localhost.'', DNSQueries := 1\<rparr>)
   \<and> checkHost 11 exLib (exChecker (zoneResolver (txtZone ''v=spf1 a:%{h} +all'')))
       (newResult [192, 0, 2, 1] ''x@example.com'' ''localhost'') ''example.com.'' False False
     = Returns (Pass, (newResult [192, 0, 2, 1] ''x@example.com'' ''localhost'')
                        \<lparr>Type := Pass, DNSQueries := 2\<rparr>)"
  by code_simp

section \<open>Selecting the SPF record\<close>






section \<open>Invariants of the evaluation\<close>

lemma voidOnly_refl [simp]: "voidOnly r r"
  unfolding voidOnly_def by (rule exI [of _ "VoidLookups r"]) simp

lemma voidOnly_trans: "voidOnly a b \<Longrightarrow> voidOnly b d \<Longrightarrow> voidOnly a d"
  unfolding voidOnly_def by auto

lemma voidOnly_fields:
  "voidOnly a b \<Longrightarrow> sender b = sender a \<and> DNSQueries b = DNSQueries a \<and> ip b = ip a \<and> helo b = helo a"
  unfolding voidOnly_def by auto

lemma voidOnly_hasAt: "voidOnly a b \<Longrightarrow> hasAt b = hasAt a"
  unfolding voidOnly_def hasAt_def by auto

lemma voidOnly_update [simp]: "voidOnly r (r\<lparr>VoidLookups := v\<rparr>)"
  unfolding voidOnly_def by blast

lemma lookupDNS_voidOnly: "lookupDNS lib c h q r = (x, r') \<Longrightarrow> voidOnly r r'"
  unfolding lookupDNS_def
  by (auto simp: Let_def split: sum.splits if_splits)

lemma lookupAddresses_voidOnly: "lookupAddresses lib c h q r = (x, r') \<Longrightarrow> voidOnly r r'"
  unfolding lookupAddresses_def
  by (auto split: prod.splits if_splits dest: lookupDNS_voidOnly)

lemma lookupDNS_types: "lookupDNS lib c h q r = ((rrs, rt, e), r') \<Longrightarrow> \<forall>rr \<in> set rrs. Rrtype rr = q"
  unfolding lookupDNS_def
  by (auto simp: Let_def split: sum.splits if_splits)

lemma truncatePtr_subset: "truncatePtr c rrs = Some rrs' \<Longrightarrow> set rrs' \<subseteq> set rrs"
  unfolding truncatePtr_def by (auto split: if_splits dest: in_set_takeD)

lemma truncatePtr_None: "truncatePtr c rrs = None \<Longrightarrow> PtrAddressLimit c < 0"
  unfolding truncatePtr_def by (auto split: if_splits)

lemma Rrtype_PTR: "Rrtype rr = TypePTR \<Longrightarrow> \<exists>h. rr = RR_PTR h"
  by (cases rr) auto

lemma Rrtype_MX: "Rrtype rr = TypeMX \<Longrightarrow> \<exists>h. rr = RR_MX h"
  by (cases rr) auto

lemma ptrMacroProbe_ok:
  "\<forall>rr \<in> set rrs. Rrtype rr = TypePTR \<Longrightarrow>
   \<exists>x r'. ptrMacroProbe lib c q t rrs ps r = Returns (x, r') \<and> voidOnly r r'"
proof (induction rrs arbitrary: ps r)
  case Nil
  show ?case by simp
next
  case (Cons rr rrs)
  from Cons.prems have "Rrtype rr = TypePTR" by simp
  then obtain h where rr: "rr = RR_PTR h" using Rrtype_PTR by blast
  obtain addrs rt e r1 where l: "lookupAddresses lib c h q r = ((addrs, rt, e), r1)"
    by (metis prod_cases3 surj_pair)
  then have v: "voidOnly r r1" by (rule lookupAddresses_voidOnly)
  from Cons have ih: "\<And>ps. \<exists>x r'. ptrMacroProbe lib c q t rrs ps r1 = Returns (x, r') \<and> voidOnly r1 r'"
    by simp
  show ?case
    using rr l v ih [of ps] ih [of "ps @ [h]"]
    by (auto intro: voidOnly_trans)
qed

lemma macroOK_Returns [simp]: "macroOK c r (Returns (x, r')) = voidOnly r r'"
  by (simp add: macroOK_def)

lemma expandPtrMacro_ok: "macroOK c r (expandPtrMacro lib c r t)"
proof (cases "ReverseAddr lib (IPString lib (ip r))")
  case (Inl e)
  then show ?thesis by (simp add: expandPtrMacro_def)
next
  case (Inr revAddr)
  obtain rrs rt e r1 where l: "lookupDNS lib c revAddr TypePTR r = ((rrs, rt, e), r1)"
    by (metis prod_cases3 surj_pair)
  then have v: "voidOnly r r1" by (rule lookupDNS_voidOnly)
  show ?thesis
  proof (cases "e \<noteq> None")
    case True
    with Inr l v show ?thesis by (simp add: expandPtrMacro_def)
  next
    case False
    show ?thesis
    proof (cases "truncatePtr c rrs")
      case None
      with Inr l False truncatePtr_None [OF None] show ?thesis
        by (simp add: expandPtrMacro_def macroOK_def)
    next
      case (Some rrs')
      from lookupDNS_types [OF l] truncatePtr_subset [OF Some]
      have "\<forall>rr \<in> set rrs'. Rrtype rr = TypePTR" by auto
      from ptrMacroProbe_ok [OF this]
      obtain x r2 where p: "ptrMacroProbe lib c (if To4 (ip r) \<noteq> None then TypeA else TypeAAAA)
                              (Fqdn lib t) rrs' [] r1 = Returns (x, r2)" and v2: "voidOnly r1 r2"
        by blast
      from v v2 have "voidOnly r r2" by (rule voidOnly_trans)
      with Inr l False Some p show ?thesis
        by (cases x) (auto simp: expandPtrMacro_def Let_def split: option.splits)
    qed
  qed
qed

lemma Index_None_iff: "Index s c = None \<longleftrightarrow> c \<notin> set s"
  by (induction s) auto

lemma LastIndex_None_iff: "LastIndex s c = None \<longleftrightarrow> c \<notin> set s"
  by (simp add: LastIndex_def Index_None_iff)

lemma hasAt_LastIndex: "hasAt r \<Longrightarrow> \<exists>i. LastIndex (sender r) (CHR ''@'') = Some i"
  using LastIndex_None_iff [of "sender r" "CHR ''@''"]
  by (cases "LastIndex (sender r) (CHR ''@'')") (auto simp: hasAt_def Contains_def Index_None_iff)

lemma macroOK_case_ptr:
  "macroOK c r out \<Longrightarrow>
   macroOK c r (case out of Returns (replacement, r') \<Rightarrow> Returns ((replacement, None), r')
                | Panic p \<Rightarrow> Panic p | OutOfFuel \<Rightarrow> OutOfFuel)"
  by (cases out) (auto simp: macroOK_def)

lemma macroReplacement_ok: "hasAt r \<Longrightarrow> macroOK c r (macroReplacement lib c l r d e)"
  using hasAt_LastIndex [of r] macroOK_case_ptr [OF expandPtrMacro_ok [of c r lib d]]
  by (auto simp: macroReplacement_def Let_def)

lemma expandMacro_loop_ok:
  "hasAt r \<Longrightarrow> macroOK c r (expandMacro_loop lib c ret ds r d e)"
proof (induction lib c ret ds r d e rule: expandMacro_loop.induct)
  case (1 lib c ret domainSpec result domain exp)
  show ?case
  proof (cases "Index domainSpec (CHR ''%'')")
    case None
    then show ?thesis by (subst expandMacro_loop.simps) simp
  next
    case (Some percent)
    let ?rest = "drop (percent + 1) domainSpec"
    let ?ret1 = "ret @ take percent domainSpec"
    note ih = "1.IH" [OF Some refl refl]
    consider (empty) "length ?rest = 0"
      | (pct) "length ?rest \<noteq> 0" "hd ?rest = CHR ''%''"
      | (dash) "length ?rest \<noteq> 0" "hd ?rest \<noteq> CHR ''%''" "hd ?rest = CHR ''-''"
      | (under) "length ?rest \<noteq> 0" "hd ?rest \<noteq> CHR ''%''" "hd ?rest \<noteq> CHR ''-''" "hd ?rest = CHR ''_''"
      | (brace) "length ?rest \<noteq> 0" "hd ?rest \<noteq> CHR ''%''" "hd ?rest \<noteq> CHR ''-''" "hd ?rest \<noteq> CHR ''_''"
          "hd ?rest = CHR ''{''"
      | (other) "length ?rest \<noteq> 0" "hd ?rest \<noteq> CHR ''%''" "hd ?rest \<noteq> CHR ''-''" "hd ?rest \<noteq> CHR ''_''"
          "hd ?rest \<noteq> CHR ''{''"
      by blast
    then show ?thesis
    proof cases
      case empty
      with Some show ?thesis by (subst expandMacro_loop.simps) simp
    next
      case pct
      with Some ih(1) [OF pct "1.prems"] show ?thesis
        by (subst expandMacro_loop.simps) (simp add: Let_def)
    next
      case dash
      with Some ih(2) [OF dash "1.prems"] show ?thesis
        by (subst expandMacro_loop.simps) (simp add: Let_def)
    next
      case under
      with Some ih(3) [OF under "1.prems"] show ?thesis
        by (subst expandMacro_loop.simps) (simp add: Let_def)
    next
      case other
      with Some show ?thesis by (subst expandMacro_loop.simps) (simp add: Let_def)
    next
      case brace
      show ?thesis
      proof (cases "macroRe ?rest")
        case None
        with Some brace show ?thesis by (subst expandMacro_loop.simps) (simp add: Let_def)
      next
        case (Some m)
        obtain n ml mlim mrev mdel where m: "m = (n, ml, mlim, mrev, mdel)" by (cases m) auto
        have mr: "macroOK c result (macroReplacement lib c ml result domain exp)"
          using "1.prems" by (rule macroReplacement_ok)
        show ?thesis
        proof (cases "macroReplacement lib c ml result domain exp")
          case (Returns x)
          obtain repl er r1 where x: "x = ((repl, er), r1)" by (cases x) auto
          from mr Returns x have v: "voidOnly result r1" by simp
          with "1.prems" have h1: "hasAt r1" by (simp add: voidOnly_hasAt)
          show ?thesis
          proof (cases er)
            case None
            from ih(4) [OF brace Some [unfolded m] refl refl refl refl Returns [unfolded x None] refl refl refl h1]
            have "macroOK c r1 (expandMacro_loop lib c
                     (?ret1 @ applyTransformers ml mlim mrev mdel repl) (drop n ?rest) r1 domain exp)" .
            then have "macroOK c result (expandMacro_loop lib c
                     (?ret1 @ applyTransformers ml mlim mrev mdel repl) (drop n ?rest) r1 domain exp)"
              using v by (auto simp: macroOK_def split: outcome.splits intro: voidOnly_trans)
            with \<open>Index domainSpec (CHR ''%'') = Some percent\<close> brace Some m Returns x None
            show ?thesis by (subst expandMacro_loop.simps) (simp add: Let_def)
          next
            case (Some err)
            with \<open>Index domainSpec (CHR ''%'') = Some percent\<close> brace \<open>macroRe ?rest = Some m\<close> m Returns x v
            show ?thesis by (subst expandMacro_loop.simps) (simp add: Let_def)
          qed
        next
          case (Panic p)
          with mr \<open>Index domainSpec (CHR ''%'') = Some percent\<close> brace Some m
          show ?thesis by (subst expandMacro_loop.simps) (simp add: Let_def macroOK_def)
        next
          case OutOfFuel
          with mr show ?thesis by (simp add: macroOK_def)
        qed
      qed
    qed
  qed
qed

lemma expandMacro_ok: "hasAt r \<Longrightarrow> macroOK c r (expandMacro lib c ds r d e)"
  by (cases "Index ds (CHR ''%'')") (simp_all add: expandMacro_def expandMacro_loop_ok)

lemma ExpandDomainSpec_ok: "hasAt r \<Longrightarrow> macroOK c r (ExpandDomainSpec lib c ds r d e)"
  using expandMacro_ok [of r c lib ds d e]
  by (cases "expandMacro lib c ds r d e")
     (auto simp: ExpandDomainSpec_def ExpandMacro_def macroOK_def)

lemma stepOK_Returns [simp]:
  "stepOK c r (Returns (x, r')) = (DNSQueries r \<le> DNSQueries r' \<and> (hasAt r \<longrightarrow> hasAt r'))"
  by (simp add: stepOK_def)

lemma macroOK_stepOK: "macroOK c r out \<Longrightarrow> stepOK c r out"
  by (cases out) (auto simp: macroOK_def stepOK_def voidOnly_hasAt dest: voidOnly_fields)

lemma stepOK_obind:
  assumes "stepOK c r m"
      and "\<And>x r1. m = Returns (x, r1) \<Longrightarrow> DNSQueries r \<le> DNSQueries r1 \<Longrightarrow> (hasAt r \<longrightarrow> hasAt r1)
              \<Longrightarrow> stepOK c r1 (f (x, r1))"
  shows "stepOK c r (obind m f)"
proof (cases m)
  case (Returns y)
  obtain x r1 where y: "y = (x, r1)" by (cases y) auto
  from assms(1) Returns y have a: "DNSQueries r \<le> DNSQueries r1" "hasAt r \<longrightarrow> hasAt r1" by simp_all
  from assms(2) [OF Returns [unfolded y] a] have "stepOK c r1 (f (x, r1))" .
  with a Returns y show ?thesis
    by (cases "f (x, r1)") (auto simp: stepOK_def)
next
  case (Panic p)
  with assms(1) show ?thesis by (simp add: stepOK_def)
next
  case OutOfFuel
  with assms(1) show ?thesis by (simp add: stepOK_def)
qed

lemma stepOK_weaken:
  "stepOK c r1 out \<Longrightarrow> DNSQueries r \<le> DNSQueries r1 \<Longrightarrow> (hasAt r \<longrightarrow> hasAt r1) \<Longrightarrow> stepOK c r out"
  by (cases out) (auto simp: stepOK_def)

lemma mxLoop_ok:
  "\<forall>rr \<in> set mxrrs. Rrtype rr = TypeMX \<Longrightarrow> stepOK c r (mxLoop lib c q qt m t n mxrrs r)"
proof (induction mxrrs arbitrary: r n)
  case Nil
  show ?case by simp
next
  case (Cons rr rrs)
  from Cons.prems have "Rrtype rr = TypeMX" by simp
  then obtain h where rr: "rr = RR_MX h" using Rrtype_MX by blast
  obtain addrs rt e r1 where l: "lookupAddresses lib c h qt r = ((addrs, rt, e), r1)"
    by (metis prod_cases3 surj_pair)
  then have v: "voidOnly r r1" by (rule lookupAddresses_voidOnly)
  from Cons have ih: "stepOK c r1 (mxLoop lib c q qt m t (n + 1) rrs r1)" by simp
  from v have "DNSQueries r \<le> DNSQueries r1" "hasAt r \<longrightarrow> hasAt r1"
    by (auto simp: voidOnly_hasAt dest: voidOnly_fields)
  with stepOK_weaken [OF ih] rr l show ?case by auto
qed

lemma ptrLoop_ok:
  "\<forall>rr \<in> set rrs. Rrtype rr = TypePTR \<Longrightarrow> stepOK c r (ptrLoop lib c q qt t rrs r)"
proof (induction rrs arbitrary: r)
  case Nil
  show ?case by simp
next
  case (Cons rr rrs)
  from Cons.prems have "Rrtype rr = TypePTR" by simp
  then obtain h where rr: "rr = RR_PTR h" using Rrtype_PTR by blast
  obtain addrs rt e r1 where l: "lookupAddresses lib c h qt r = ((addrs, rt, e), r1)"
    by (metis prod_cases3 surj_pair)
  then have v: "voidOnly r r1" by (rule lookupAddresses_voidOnly)
  from Cons have ih: "stepOK c r (ptrLoop lib c q qt t rrs r)" "stepOK c r1 (ptrLoop lib c q qt t rrs r1)"
    by simp_all
  from v have "DNSQueries r \<le> DNSQueries r1" "hasAt r \<longrightarrow> hasAt r1"
    by (auto simp: voidOnly_hasAt dest: voidOnly_fields)
  with stepOK_weaken [OF ih(2)] ih(1) rr l show ?case by auto
qed

lemma hasAt_DNSQueries_update [simp]: "hasAt (r\<lparr>DNSQueries := q\<rparr>) = hasAt r"
  by (simp add: hasAt_def)

lemma hasAt_Type_update [simp]: "hasAt (r\<lparr>Type := q\<rparr>) = hasAt r"
  by (simp add: hasAt_def)

lemma hasAt_Error_update [simp]: "hasAt (r\<lparr>Error := q\<rparr>) = hasAt r"
  by (simp add: hasAt_def)

lemma hasAt_Explanation_update [simp]: "hasAt (r\<lparr>Explanation := q\<rparr>) = hasAt r"
  by (simp add: hasAt_def)

lemma MechanismA_ok:
  assumes "hasAt r"
  shows "stepOK c r (MechanismA_Evaluate lib c q ds m4 m6 r d)"
proof -
  let ?r = "r\<lparr>DNSQueries := DNSQueries r + 1\<rparr>"
  have h: "hasAt ?r" using assms by simp
  have "stepOK c ?r (MechanismA_Evaluate lib c q ds m4 m6 r d)"
    unfolding MechanismA_Evaluate_def Let_def
  proof (rule stepOK_obind [OF macroOK_stepOK [OF ExpandDomainSpec_ok [OF h]]], goal_cases)
    case (1 x r1)
    obtain target err where x: "x = (target, err)" by (cases x) auto
    obtain rrs rt e r2 where l: "lookupDNS lib c target (if To4 (ip ?r) = None then TypeAAAA else TypeA) r1
                                   = ((rrs, rt, e), r2)"
      by (metis prod_cases3 surj_pair)
    then have v: "voidOnly r1 r2" by (rule lookupDNS_voidOnly)
    then have "DNSQueries r1 \<le> DNSQueries r2" "hasAt r1 \<longrightarrow> hasAt r2"
      by (auto simp: voidOnly_hasAt dest: voidOnly_fields)
    with x l show ?case by auto
  qed
  then show ?thesis by (rule stepOK_weaken) simp_all
qed

lemma voidOnly_step: "voidOnly r1 r2 \<Longrightarrow> DNSQueries r1 \<le> DNSQueries r2 \<and> (hasAt r1 \<longrightarrow> hasAt r2)"
  by (auto simp: voidOnly_hasAt dest: voidOnly_fields)

lemma MechanismMX_ok:
  assumes "hasAt r"
  shows "stepOK c r (MechanismMX_Evaluate lib c q ds m4 m6 r d)"
proof -
  let ?r = "r\<lparr>DNSQueries := DNSQueries r + 1\<rparr>"
  have h: "hasAt ?r" using assms by simp
  have "stepOK c ?r (MechanismMX_Evaluate lib c q ds m4 m6 r d)"
    unfolding MechanismMX_Evaluate_def Let_def
  proof (rule stepOK_obind [OF macroOK_stepOK [OF ExpandDomainSpec_ok [OF h]]], goal_cases)
    case (1 x r1)
    obtain target err where x: "x = (target, err)" by (cases x) auto
    obtain rrs rt e r2 where l: "lookupDNS lib c target TypeMX r1 = ((rrs, rt, e), r2)"
      by (metis prod_cases3 surj_pair)
    note s = voidOnly_step [OF lookupDNS_voidOnly [OF l]]
    have "stepOK c r2 (mxLoop lib c q (if To4 (ip ?r) = None then TypeAAAA else TypeA)
                         (if To4 (ip ?r) = None then m6 else m4) target 0 rrs r2)"
      using lookupDNS_types [OF l] by (rule mxLoop_ok)
    then have "stepOK c r1 (mxLoop lib c q (if To4 (ip ?r) = None then TypeAAAA else TypeA)
                         (if To4 (ip ?r) = None then m6 else m4) target 0 rrs r2)"
      using s by (auto intro: stepOK_weaken)
    with x l s show ?case by auto
  qed
  then show ?thesis by (rule stepOK_weaken) simp_all
qed

lemma MechanismExists_ok:
  assumes "hasAt r"
  shows "stepOK c r (MechanismExists_Evaluate lib c q ds r d)"
proof -
  let ?r = "r\<lparr>DNSQueries := DNSQueries r + 1\<rparr>"
  have h: "hasAt ?r" using assms by simp
  have "stepOK c ?r (MechanismExists_Evaluate lib c q ds r d)"
    unfolding MechanismExists_Evaluate_def Let_def
  proof (rule stepOK_obind [OF macroOK_stepOK [OF ExpandDomainSpec_ok [OF h]]], goal_cases)
    case (1 x r1)
    obtain target err where x: "x = (target, err)" by (cases x) auto
    obtain rrs rt e r2 where l: "lookupAddresses lib c target TypeA r1 = ((rrs, rt, e), r2)"
      by (metis prod_cases3 surj_pair)
    note s = voidOnly_step [OF lookupAddresses_voidOnly [OF l]]
    with x l show ?case by auto
  qed
  then show ?thesis by (rule stepOK_weaken) simp_all
qed

lemma MechanismPTR_ok:
  assumes h: "hasAt r"
  shows "stepOK c r (MechanismPTR_Evaluate lib c q ds r d)"
  unfolding MechanismPTR_Evaluate_def Let_def
proof (rule stepOK_obind [OF macroOK_stepOK [OF ExpandDomainSpec_ok [OF h]]], goal_cases)
  case (1 x r1)
  obtain target err where x: "x = (target, err)" by (cases x) auto
  show ?case
  proof (cases "ReverseAddr lib (IPString lib (ip r1))")
    case (Inl e)
    with x show ?thesis by auto
  next
    case (Inr revAddr)
    obtain rrs rt e r2 where l: "lookupDNS lib c revAddr TypePTR r1 = ((rrs, rt, e), r2)"
      by (metis prod_cases3 surj_pair)
    note s = voidOnly_step [OF lookupDNS_voidOnly [OF l]]
    show ?thesis
    proof (cases "truncatePtr c rrs")
      case None
      with x Inr l s truncatePtr_None [OF None] show ?thesis by (auto simp: stepOK_def)
    next
      case (Some rrs')
      from lookupDNS_types [OF l] truncatePtr_subset [OF Some]
      have "\<forall>rr \<in> set rrs'. Rrtype rr = TypePTR" by auto
      then have "stepOK c r2 (ptrLoop lib c q (if To4 (ip r) \<noteq> None then TypeA else TypeAAAA)
                                (Fqdn lib target) rrs' r2)"
        by (rule ptrLoop_ok)
      then have "stepOK c r1 (ptrLoop lib c q (if To4 (ip r) \<noteq> None then TypeA else TypeAAAA)
                                (Fqdn lib target) rrs' r2)"
        using s by (auto intro: stepOK_weaken)
      with x Inr l s Some show ?thesis by auto
    qed
  qed
qed

lemma MechanismInclude_ok:
  assumes h: "hasAt r" and self: "selfOK c q0 self" and q: "q0 \<le> DNSQueries r"
  shows "stepOK c r (MechanismInclude_Evaluate lib c self q ds r d)"
  unfolding MechanismInclude_Evaluate_def
proof (rule stepOK_obind [OF macroOK_stepOK [OF ExpandDomainSpec_ok [OF h]]], goal_cases)
  case (1 x r1)
  obtain target err where x: "x = (target, err)" by (cases x) auto
  from 1 q have q1: "q0 \<le> DNSQueries r1" by simp
  have "stepOK c r1 (obind (self r1 (Fqdn lib target) True False) (\<lambda>(includeResult, result2).
         case includeResult of
           Pass \<Rightarrow> Returns ((q, None), result2)
         | Fail \<Rightarrow> Returns ((NoneR, None), result2)
         | Softfail \<Rightarrow> Returns ((NoneR, None), result2)
         | Neutral \<Rightarrow> Returns ((NoneR, None), result2)
         | Temperror \<Rightarrow> Returns ((Temperror, None), result2)
         | Permerror \<Rightarrow> Returns ((Permerror, None), result2)
         | NoneR \<Rightarrow> Returns ((Permerror, None), result2)))"
  proof (rule stepOK_obind, goal_cases)
    case 1
    from self q1 show ?case by (simp add: selfOK_def)
  next
    case (2 y r2)
    then show ?case by (cases y) simp_all
  qed
  with x show ?case by auto
qed

lemma Evaluate_ok:
  assumes "hasAt r" and "selfOK c q0 self" and "q0 \<le> DNSQueries r"
  shows "stepOK c r (Evaluate lib c self m r d)"
  using assms
  by (cases m)
     (simp_all add: MechanismAll_Evaluate_def MechanismIp4_Evaluate_def MechanismIp6_Evaluate_def
        MechanismA_ok MechanismMX_ok MechanismExists_ok MechanismPTR_ok MechanismInclude_ok)

lemma explanationStep_ok:
  assumes h: "hasAt r"
  shows "stepOK c r (explanationStep lib c e r d)"
  unfolding explanationStep_def
proof (rule stepOK_obind [OF macroOK_stepOK [OF ExpandDomainSpec_ok [OF h]]], goal_cases)
  case (1 x r1)
  obtain target err where x: "x = (target, err)" by (cases x) auto
  from 1 h have h1: "hasAt r1" by simp
  have em: "\<And>s. stepOK c r1 (obind (ExpandMacro lib c s r1 d True)
               (\<lambda>((explanation, _), result2). Returns (Fail, result2\<lparr>Explanation := explanation\<rparr>)))"
  proof (rule stepOK_obind, goal_cases)
    case (1 s)
    show ?case unfolding ExpandMacro_def by (rule macroOK_stepOK [OF expandMacro_ok [OF h1]])
  next
    case (2 s y r2)
    then show ?case by (cases y) simp_all
  qed
  show ?case
  proof (cases "resolve c target TypeTXT")
    case (Inl a)
    with x show ?thesis by auto
  next
    case (Inr m)
    with x em show ?thesis by (cases "hd (Answer m)") auto
  qed
qed

lemma walk_ok:
  assumes "selfOK c q0 self"
  shows "hasAt r \<Longrightarrow> q0 \<le> DNSQueries r \<Longrightarrow> stepOK c r (walk lib c self ms inc l r d)"
proof (induction l arbitrary: r)
  case Nil
  show ?case by simp
next
  case (Cons m rest)
  show ?case
    unfolding walk.simps
  proof (rule stepOK_obind [OF Evaluate_ok [OF Cons.prems(1) assms Cons.prems(2)]], goal_cases)
    case (1 x r1)
    obtain rt err where x: "x = (rt, err)" by (cases x) auto
    from 1 Cons.prems have h1: "hasAt r1" and q1: "q0 \<le> DNSQueries r1" by simp_all
    let ?r2 = "r1\<lparr>Type := rt\<rparr>"
    have h2: "hasAt ?r2" and q2: "q0 \<le> DNSQueries ?r2" using h1 q1 by simp_all
    have ih: "stepOK c ?r2 (walk lib c self ms inc rest ?r2 d)"
      using h2 q2 by (rule Cons.IH)
    have ex: "stepOK c (?r2\<lparr>Error := err\<rparr>)
               (obind (explanationStep lib c (Exp ms) (?r2\<lparr>Error := err\<rparr>) d)
                  (\<lambda>(r, result4). Returns (Some r, result4)))"
    proof (rule stepOK_obind, goal_cases)
      case 1
      show ?case by (rule explanationStep_ok) (simp add: h1)
    next
      case (2 y r4)
      then show ?case by simp
    qed
    have "stepOK c r1
            (let result2 = ?r2 in
             if DNSQueries result2 > DNSLimit c
             then Returns (Some Permerror, result2\<lparr>Error := limitExceeded c\<rparr>)
             else if rt \<noteq> NoneR then
               (let result3 = result2\<lparr>Error := err\<rparr> in
                if err = None \<and> \<not> inc \<and> rt = Fail \<and> Exp ms \<noteq> []
                then obind (explanationStep lib c (Exp ms) result3 d)
                       (\<lambda>(r, result4). Returns (Some r, result4))
                else Returns (Some rt, result3))
             else walk lib c self ms inc rest result2 d)"
      using ih ex h1 by (auto simp: Let_def intro: stepOK_weaken)
    with x show ?case by simp
  qed
qed

lemma hasAt_fixup:
  "hasAt (let result1 = (if \<not> Contains (sender r) (CHR ''@'')
                         then r\<lparr>sender := ''postmaster@'' @ sender r\<rparr> else r);
              result2 = (if HasPrefix (sender result1) ''@''
                         then result1\<lparr>sender := ''postmaster'' @ sender result1\<rparr> else result1)
          in result2\<lparr>DNSQueries := DNSQueries result2 + 1\<rparr>)"
  by (auto simp: hasAt_def Contains_def Index_None_iff Let_def)

lemma DNSQueries_fixup:
  "DNSQueries (let result1 = (if \<not> Contains (sender r) (CHR ''@'')
                         then r\<lparr>sender := ''postmaster@'' @ sender r\<rparr> else r);
              result2 = (if HasPrefix (sender result1) ''@''
                         then result1\<lparr>sender := ''postmaster'' @ sender result1\<rparr> else result1)
          in result2\<lparr>DNSQueries := DNSQueries result2 + 1\<rparr>) = DNSQueries r + 1"
  by (auto simp: Let_def)

lemma checkHostCore_ok:
  assumes self: "DNSQueries r + 1 \<le> DNSLimit c \<Longrightarrow> selfOK c (DNSQueries r + 1) self"
  shows "stepOK c r (checkHostCore lib c self r d inc rd)"
proof -
  define r3 where "r3 = (let result1 = (if \<not> Contains (sender r) (CHR ''@'')
                         then r\<lparr>sender := ''postmaster@'' @ sender r\<rparr> else r);
              result2 = (if HasPrefix (sender result1) ''@''
                         then result1\<lparr>sender := ''postmaster'' @ sender result1\<rparr> else result1)
          in result2\<lparr>DNSQueries := DNSQueries result2 + 1\<rparr>)"
  have h3: "hasAt r3" unfolding r3_def by (rule hasAt_fixup)
  have q3: "DNSQueries r3 = DNSQueries r + 1" unfolding r3_def by (rule DNSQueries_fixup)
  have unfold: "checkHostCore lib c self r d inc rd =
     (if \<not> snd (IsDomainName lib d)
      then Returns (NoneR, r\<lparr>Error := Some ''invalid domain''\<rparr>)
      else if \<not> IsFqdn lib d
      then Returns (NoneR, r\<lparr>Error := Some ''domain not fully qualified''\<rparr>)
      else if DNSQueries r3 > DNSLimit c
            then Returns (Permerror, r3\<lparr>Error := limitExceeded c\<rparr>)
            else (case getSPFRecord lib c d of
                    (record, resultType, err) \<Rightarrow>
                      if err \<noteq> None then Returns (resultType, r3\<lparr>Error := err\<rparr>)
                      else if record = []
                      then (if rd then Returns (Permerror, r3)
                            else Returns (resultType, r3))
                      else if invalidCharRe record \<noteq> []
                      then Returns (Permerror,
                             r3\<lparr>Error := Some (''invalid character '' @ invalidCharRe record)\<rparr>)
                      else (case ParseSPF lib record of
                              Inl e \<Rightarrow> Returns (Permerror, r3\<lparr>Error := Some e\<rparr>)
                            | Inr mechanisms \<Rightarrow>
                                obind (walk lib c self mechanisms inc (Mechanisms mechanisms)
                                         r3 d)
                                  (\<lambda>(r, result4).
                                     case r of
                                       Some resultType' \<Rightarrow> Returns (resultType', result4)
                                     | None \<Rightarrow>
                                         if Redirect mechanisms \<noteq> [] then
                                           obind (ExpandDomainSpec lib c (Redirect mechanisms)
                                                    result4 d False)
                                             (\<lambda>((target, err'), result5).
                                                if err' \<noteq> None then Returns (Permerror, result5)
                                                else if \<not> validDomainName lib target
                                                then Returns (Permerror, result5)
                                                else self result5 (Fqdn lib target) False True)
                                         else Returns (Neutral, result4)))))"
    unfolding checkHostCore_def r3_def Let_def by simp
  have main: "DNSQueries r3 \<le> DNSLimit c \<Longrightarrow> stepOK c r3
          (obind (walk lib c self ms inc (Mechanisms ms) r3 d)
            (\<lambda>(r, result4).
               case r of
                 Some resultType' \<Rightarrow> Returns (resultType', result4)
               | None \<Rightarrow>
                   if Redirect ms \<noteq> [] then
                     obind (ExpandDomainSpec lib c (Redirect ms) result4 d False)
                       (\<lambda>((target, err'), result5).
                          if err' \<noteq> None then Returns (Permerror, result5)
                          else if \<not> validDomainName lib target
                          then Returns (Permerror, result5)
                          else self result5 (Fqdn lib target) False True)
                   else Returns (Neutral, result4)))" for ms
  proof -
    assume le: "DNSQueries r3 \<le> DNSLimit c"
    with q3 self have s: "selfOK c (DNSQueries r3) self" by simp
    show ?thesis
    proof (rule stepOK_obind [OF walk_ok [OF s h3]], goal_cases)
      case 1
      show ?case by simp
    next
      case (2 x r4)
      with h3 have h4: "hasAt r4" by simp
      show ?case
      proof (cases x)
        case (Some a)
        then show ?thesis by simp
      next
        case None
        have "stepOK c r4 (obind (ExpandDomainSpec lib c (Redirect ms) r4 d False)
                       (\<lambda>((target, err'), result5).
                          if err' \<noteq> None then Returns (Permerror, result5)
                          else if \<not> validDomainName lib target
                          then Returns (Permerror, result5)
                          else self result5 (Fqdn lib target) False True))"
        proof (rule stepOK_obind [OF macroOK_stepOK [OF ExpandDomainSpec_ok [OF h4]]], goal_cases)
          case (1 y r5)
          obtain target err where y: "y = (target, err)" by (cases y) auto
          from 1 2 have "DNSQueries r3 \<le> DNSQueries r5" by simp
          with s have "stepOK c r5 (self r5 (Fqdn lib target) False True)"
            by (simp add: selfOK_def)
          with y show ?case by auto
        qed
        with None show ?thesis by simp
      qed
    qed
  qed
  have "stepOK c r3 (checkHostCore lib c self r d inc rd) \<or>
        (\<exists>e. checkHostCore lib c self r d inc rd = Returns (NoneR, r\<lparr>Error := e\<rparr>))"
    unfolding unfold using main
    by (auto split: prod.splits sum.splits)
  moreover have "DNSQueries r \<le> DNSQueries r3" using q3 by simp
  ultimately show ?thesis using h3
    by (auto intro: stepOK_weaken)
qed

lemma checkHost_ok:
  "enoughFuel c r \<le> n \<Longrightarrow> stepOK c r (checkHost n lib c r d inc rd)"
proof (induction n arbitrary: r d inc rd)
  case 0
  then show ?case by (simp add: enoughFuel_def)
next
  case (Suc n)
  have "selfOK c (DNSQueries r + 1) (checkHost n lib c)" if le: "DNSQueries r + 1 \<le> DNSLimit c"
    unfolding selfOK_def
  proof (intro allI impI)
    fix r' :: Result and d' i' rd'
    assume "DNSQueries r + 1 \<le> DNSQueries r'"
    with le Suc.prems have "enoughFuel c r' \<le> n" by (simp add: enoughFuel_def)
    then show "stepOK c r' (checkHost n lib c r' d' i' rd')" by (rule Suc.IH)
  qed
  then show ?case by (simp add: checkHostCore_ok)
qed

lemma checkHostCore_invalid:
  "\<not> (snd (IsDomainName lib d) \<and> IsFqdn lib d) \<Longrightarrow>
   \<exists>e. checkHostCore lib c self r d inc rd = Returns (NoneR, r\<lparr>Error := e\<rparr>)"
  by (auto simp: checkHostCore_def)

lemma macroOK_not_SenderSlice: "macroOK c r out \<Longrightarrow> out \<noteq> Panic SenderSlice"
  by (auto simp: macroOK_def)

lemma stepOK_not_SenderSlice: "stepOK c r out \<Longrightarrow> out \<noteq> Panic SenderSlice \<and> out \<noteq> OutOfFuel"
  by (auto simp: stepOK_def)

lemma macroReplacement_l_panics:
  "\<not> hasAt r \<Longrightarrow> macroReplacement lib c ''l'' r d e = Panic SenderSlice"
proof -
  assume "\<not> hasAt r"
  then have "LastIndex (sender r) (CHR ''@'') = None"
    by (simp add: hasAt_def Contains_def LastIndex_None_iff Index_None_iff)
  then show ?thesis
    by (simp add: macroReplacement_def ToLower_def lowerChar_def isUpper_def)
qed

lemma macroRe_l: "macroRe ''{l}'' = Some (3, ''l'', [], [], [])"
  by code_simp

lemma expandMacro_l_panics:
  assumes "\<not> hasAt r"
  shows "expandMacro lib c ''%{l}'' r d e = Panic SenderSlice"
proof -
  have i: "Index ''%{l}'' (CHR ''%'') = Some 0" by simp
  show ?thesis
    unfolding expandMacro_def i option.case
    by (subst expandMacro_loop.simps)
       (simp add: i macroRe_l macroReplacement_l_panics [OF assms])
qed

lemma macroReplacement_o:
  "macroReplacement lib c ''o'' r d e =
     Returns ((TrimSuffix (case LastIndex (sender r) (CHR ''@'') of
                              None \<Rightarrow> sender r | Some i \<Rightarrow> drop (i + 1) (sender r)) ''.'', None), r)"
  by (simp add: macroReplacement_def ToLower_def lowerChar_def isUpper_def)

section \<open>The sender slices of the macro engine\<close>

text \<open>
  Claim C10, amended. The macro letter \<^verbatim>\<open>l\<close> slices the sender before its last
  \<^verbatim>\<open>@\<close> and is well-defined only when the sender contains an \<^verbatim>\<open>@\<close>: without one
  the slice is out of bounds and the expansion panics. The letter \<^verbatim>\<open>o\<close> slices after the
  last \<^verbatim>\<open>@\<close> and is always well-defined: without an \<^verbatim>\<open>@\<close> it takes the whole
  sender. With an \<^verbatim>\<open>@\<close> in the sender no expansion of any macro string panics on a
  sender slice. The initial processing of \<^verbatim>\<open>checkHost\<close> leaves a sender with an
  \<^verbatim>\<open>@\<close>, and no call of \<^verbatim>\<open>checkHost\<close>, whatever the sender it starts with, panics
  on a sender slice; the fuel \<^term>\<open>enoughFuel c result\<close> is enough for the call to
  come to an end.
\<close>

theorem sender_slice_safety:
  "(hasAt result \<longrightarrow> expandMacro lib c macroString result domain exp \<noteq> Panic SenderSlice)
   \<and> (\<not> hasAt result \<longrightarrow> expandMacro lib c ''%{l}'' result domain exp = Panic SenderSlice)
   \<and> macroReplacement lib c ''o'' result domain exp
       = Returns ((TrimSuffix (case LastIndex (sender result) (CHR ''@'') of
                                 None \<Rightarrow> sender result
                               | Some i \<Rightarrow> drop (i + 1) (sender result)) ''.'', None), result)
   \<and> hasAt (afterInit result)
   \<and> (enoughFuel c result \<le> n \<longrightarrow>
         checkHost n lib c result domain include redirect \<noteq> Panic SenderSlice
         \<and> checkHost n lib c result domain include redirect \<noteq> OutOfFuel)"
proof (intro conjI impI)
  assume "hasAt result"
  then show "expandMacro lib c macroString result domain exp \<noteq> Panic SenderSlice"
    by (rule macroOK_not_SenderSlice [OF expandMacro_ok])
next
  assume "\<not> hasAt result"
  then show "expandMacro lib c ''%{l}'' result domain exp = Panic SenderSlice"
    by (rule expandMacro_l_panics)
next
  show "macroReplacement lib c ''o'' result domain exp
       = Returns ((TrimSuffix (case LastIndex (sender result) (CHR ''@'') of
                                 None \<Rightarrow> sender result
                               | Some i \<Rightarrow> drop (i + 1) (sender result)) ''.'', None), result)"
    by (rule macroReplacement_o)
next
  show "hasAt (afterInit result)"
    unfolding afterInit_def by (rule hasAt_fixup)
next
  assume "enoughFuel c result \<le> n"
  then show "checkHost n lib c result domain include redirect \<noteq> Panic SenderSlice"
    using stepOK_not_SenderSlice [OF checkHost_ok] by blast
next
  assume "enoughFuel c result \<le> n"
  then show "checkHost n lib c result domain include redirect \<noteq> OutOfFuel"
    using stepOK_not_SenderSlice [OF checkHost_ok] by blast
qed

theorem sender_slice_safety_witness:
  "hasAt (afterInit (newResult [192, 0, 2, 1] ''example.com'' []))
   \<and> expandMacro exLib (exChecker (zoneResolver zoneLocalPart)) ''%{l}.%{o}.example.com''
         (afterInit (newResult [192, 0, 2, 1] ''example.com'' [])) ''example.com.'' False
       \<noteq> Panic SenderSlice
   \<and> \<not> hasAt (newResult [192, 0, 2, 1] ''example.com'' [])
   \<and> expandMacro exLib (exChecker (zoneResolver zoneLocalPart)) ''%{l}''
         (newResult [192, 0, 2, 1] ''example.com'' []) ''example.com.'' False
       = Panic SenderSlice
   \<and> enoughFuel (exChecker (zoneResolver zoneLocalPart)) (newResult [192, 0, 2, 1] ''example.com'' []) \<le> 11
   \<and> checkHost 11 exLib (exChecker (zoneResolver zoneLocalPart))
         (newResult [192, 0, 2, 1] ''example.com'' []) ''example.com.'' False False
       \<noteq> Panic SenderSlice
   \<and> checkHost 11 exLib (exChecker (zoneResolver zoneLocalPart))
         (newResult [192, 0, 2, 1] ''example.com'' []) ''example.com.'' False False
       \<noteq> OutOfFuel"
proof -
  let ?c = "exChecker (zoneResolver zoneLocalPart)"
  let ?r = "newResult [192, 0, 2, 1] ''example.com'' []"
  have h1: "hasAt (afterInit ?r)" by code_simp
  have h2: "\<not> hasAt ?r" by code_simp
  have h3: "enoughFuel ?c ?r \<le> 11" by code_simp
  note t1 = sender_slice_safety [of "afterInit ?r" exLib ?c "''%{l}.%{o}.example.com''" "''example.com.''" False 11 False False]
  note t2 = sender_slice_safety [of ?r exLib ?c "[]" "''example.com.''" False 11 False False]
  from t1 h1 have a: "expandMacro exLib ?c ''%{l}.%{o}.example.com'' (afterInit ?r) ''example.com.'' False
       \<noteq> Panic SenderSlice" by blast
  from t2 h2 have b: "expandMacro exLib ?c ''%{l}'' ?r ''example.com.'' False = Panic SenderSlice" by blast
  from t2 h3 have d: "checkHost 11 exLib ?c ?r ''example.com.'' False False \<noteq> Panic SenderSlice"
                     "checkHost 11 exLib ?c ?r ''example.com.'' False False \<noteq> OutOfFuel" by blast+
  from h1 a h2 b h3 d show ?thesis by (intro conjI)
qed

text \<open>The claim as stated fails for the letter \<^verbatim>\<open>o\<close>: its slice is within bounds for
  a sender without an \<^verbatim>\<open>@\<close>.\<close>

theorem sender_domain_macro_counterexample:
  "\<not> Contains ''example.com'' (CHR ''@'')
   \<and> expandMacro exLib (exChecker (zoneResolver [])) ''%{o}''
         (newResult [192, 0, 2, 1] ''example.com'' []) ''example.com.'' False
       = Returns ((''example.com'', None), newResult [192, 0, 2, 1] ''example.com'' [])"
  by code_simp

section \<open>The explanation step\<close>










section \<open>Void lookups\<close>













section \<open>Round trip of the canonical text\<close>



















lemma trailingDigits_slash [simp]: "trailingDigits (s @ ''/'') = []"
  by (simp add: trailingDigits_def isDigit_def)











lemma take_slash: "take (Suc (length s + length d) - length d) (s @ CHR ''/'' # d) = s @ ''/''"
  by simp










lemma noCidrTail_Nil [simp]: "noCidrTail []"
  by (simp add: noCidrTail_def)














































end
